theory Spec2Isabelle
  imports Main
begin

section \<open>Python values, exceptions and the operations the code applies to them\<close>

text \<open>
  The modules pass around untyped dictionaries and decoded JSON, so the model has one type of
  Python values. A float is \<open>m * 2 ^ e\<close>, an infinity or NaN; only its truth value is ever
  inspected here. A dictionary is an association list in insertion order (all keys in the
  code and in JSON are strings), read with \<open>map_of\<close>. A string is the list of its characters.
  The wording of the interpreter's own error messages is that of CPython 3.11.
\<close>

datatype pyfloat = PyFloat int int | PyInf bool | PyNaN

datatype pyval =
    PNone
  | PBool bool
  | PInt int
  | PFloat pyfloat
  | PStr string
  | PList "pyval list"
  | PDict "(string \<times> pyval) list"

type_synonym pydict = "(string \<times> pyval) list"

datatype pykey = KInt int | KStr string

datatype exc_class =
    TypeError | KeyError | IndexError | AttributeError
  | HTTPError | RequestException | OtherException

text \<open>
  What \<open>response.json()\<close> gives is part of the response: the decoded value, or the message
  of the decoding error.
\<close>

record http_response =
  status_code :: int
  reason :: string
  resp_url :: string
  resp_json :: "string + pyval"

text \<open>
  An exception carries its class (\<open>RequestException\<close> stands for every subclass of it other
  than \<open>HTTPError\<close>, \<open>OtherException\<close> for every other subclass of \<open>Exception\<close>), its
  \<open>str(e)\<close>, and the attributes the handlers look at: \<open>message\<close> and \<open>body\<close> (absent when
  \<open>None\<close> here) and \<open>response\<close>.
\<close>

record py_exc =
  exc_class :: exc_class
  exc_str :: string
  exc_message :: "pyval option"
  exc_body :: "pyval option"
  exc_response :: "http_response option"

definition mk_exc :: "exc_class \<Rightarrow> string \<Rightarrow> py_exc" where
  "mk_exc c s =
     \<lparr>exc_class = c, exc_str = s, exc_message = None, exc_body = None, exc_response = None\<rparr>"

definition quoted :: "string \<Rightarrow> string" where
  "quoted s = [CHR 0x27] @ s @ [CHR 0x27]"

definition digit_char :: "nat \<Rightarrow> char" where
  "digit_char d = ''0123456789'' ! (d mod 10)"

fun show_nat :: "nat \<Rightarrow> string" where
  "show_nat n = (if n < 10 then [digit_char n] else show_nat (n div 10) @ [digit_char n])"

declare show_nat.simps [simp del]

definition show_int :: "int \<Rightarrow> string" where
  "show_int i = (if i < 0 then CHR ''-'' # show_nat (nat (- i)) else show_nat (nat i))"

fun type_name :: "pyval \<Rightarrow> string" where
  "type_name PNone = ''NoneType''"
| "type_name (PBool _) = ''bool''"
| "type_name (PInt _) = ''int''"
| "type_name (PFloat _) = ''float''"
| "type_name (PStr _) = ''str''"
| "type_name (PList _) = ''list''"
| "type_name (PDict _) = ''dict''"

fun py_truthy :: "pyval \<Rightarrow> bool" where
  "py_truthy PNone = False"
| "py_truthy (PBool b) = b"
| "py_truthy (PInt i) = (i \<noteq> 0)"
| "py_truthy (PFloat (PyFloat m e)) = (m \<noteq> 0)"
| "py_truthy (PFloat _) = True"
| "py_truthy (PStr s) = (s \<noteq> [])"
| "py_truthy (PList xs) = (xs \<noteq> [])"
| "py_truthy (PDict d) = (d \<noteq> [])"

definition py_or :: "pyval \<Rightarrow> pyval \<Rightarrow> pyval" where
  "py_or a b = (if py_truthy a then a else b)"

fun py_len :: "pyval \<Rightarrow> py_exc + nat" where
  "py_len (PStr s) = Inr (length s)"
| "py_len (PList xs) = Inr (length xs)"
| "py_len (PDict d) = Inr (length d)"
| "py_len v = Inl (mk_exc TypeError (''object of type '' @ quoted (type_name v) @ '' has no len()''))"

text \<open>
  \<open>xs[i]\<close> on a sequence: an index from \<open>-len(xs)\<close> up to \<open>-1\<close> is taken from the end, and
  anything outside \<open>-len(xs) .. len(xs) - 1\<close> has no element.
\<close>

definition seq_index :: "'a list \<Rightarrow> int \<Rightarrow> 'a option" where
  "seq_index xs i =
     (if 0 \<le> i \<and> i < int (length xs) then Some (xs ! nat i)
      else if i < 0 \<and> - i \<le> int (length xs) then Some (xs ! nat (int (length xs) + i))
      else None)"

fun py_getitem :: "pyval \<Rightarrow> pykey \<Rightarrow> py_exc + pyval" where
  "py_getitem (PDict d) (KStr k) =
     (case map_of d k of Some v \<Rightarrow> Inr v | None \<Rightarrow> Inl (mk_exc KeyError (quoted k)))"
| "py_getitem (PDict d) (KInt i) = Inl (mk_exc KeyError (show_int i))"
| "py_getitem (PList xs) (KInt i) =
     (case seq_index xs i of Some v \<Rightarrow> Inr v
      | None \<Rightarrow> Inl (mk_exc IndexError ''list index out of range''))"
| "py_getitem (PList xs) (KStr k) =
     Inl (mk_exc TypeError ''list indices must be integers or slices, not str'')"
| "py_getitem (PStr s) (KInt i) =
     (case seq_index s i of Some c \<Rightarrow> Inr (PStr [c])
      | None \<Rightarrow> Inl (mk_exc IndexError ''string index out of range''))"
| "py_getitem (PStr s) (KStr k) =
     Inl (mk_exc TypeError (''string indices must be integers, not '' @ quoted ''str''))"
| "py_getitem v k =
     Inl (mk_exc TypeError (quoted (type_name v) @ '' object is not subscriptable''))"

text \<open>The method \<open>get\<close> exists on dictionaries only.\<close>

fun py_get :: "pyval \<Rightarrow> string \<Rightarrow> pyval \<Rightarrow> py_exc + pyval" where
  "py_get (PDict d) k dflt = Inr (case map_of d k of Some v \<Rightarrow> v | None \<Rightarrow> dflt)"
| "py_get v k dflt =
     Inl (mk_exc AttributeError
            (quoted (type_name v) @ '' object has no attribute '' @ quoted ''get''))"

fun is_infix :: "string \<Rightarrow> string \<Rightarrow> bool" where
  "is_infix p [] = (p = [])"
| "is_infix p (c # cs) = (take (length p) (c # cs) = p \<or> is_infix p cs)"

text \<open>\<open>k in v\<close> for a string \<open>k\<close>: key of a dictionary, element of a list, substring of a string.\<close>

fun py_contains :: "string \<Rightarrow> pyval \<Rightarrow> py_exc + bool" where
  "py_contains k (PDict d) = Inr (k \<in> set (map fst d))"
| "py_contains k (PList xs) = Inr (PStr k \<in> set xs)"
| "py_contains k (PStr s) = Inr (is_infix k s)"
| "py_contains k v =
     Inl (mk_exc TypeError (''argument of type '' @ quoted (type_name v) @ '' is not iterable''))"

text \<open>
  Assignment \<open>d[k] = v\<close>: an existing key keeps its place, a new key goes last.
\<close>

fun dict_set :: "pydict \<Rightarrow> string \<Rightarrow> pyval \<Rightarrow> pydict" where
  "dict_set [] k v = [(k, v)]"
| "dict_set ((k', v') # d) k v = (if k' = k then (k, v) # d else (k', v') # dict_set d k v)"

fun py_rstrip :: "char \<Rightarrow> string \<Rightarrow> string" where
  "py_rstrip c s = rev (dropWhile (\<lambda>x. x = c) (rev s))"

fun py_lstrip :: "char \<Rightarrow> string \<Rightarrow> string" where
  "py_lstrip c s = dropWhile (\<lambda>x. x = c) s"

fun py_join :: "string \<Rightarrow> string list \<Rightarrow> string" where
  "py_join sep [] = []"
| "py_join sep [x] = x"
| "py_join sep (x # y # ys) = x @ sep @ py_join sep (y # ys)"

section \<open>The world outside the program\<close>

text \<open>
  Every call that leaves the program is recorded as an event, in order, with what was sent.
  \<open>Translate_called\<close> is not an event of the program: it is what a test double around the
  translate stage writes down when it is called.
\<close>

record post_request =
  post_url :: string
  post_params :: "(string \<times> pyval) list"
  post_headers :: "(string \<times> pyval) list"
  post_json :: pyval
  post_timeout :: nat

record get_request =
  get_url :: string
  get_timeout :: nat

record client_cfg =
  cfg_api_key :: pyval
  cfg_api_version :: pyval
  cfg_azure_endpoint :: pyval

record chat_request =
  chat_model :: pyval
  chat_messages :: "(string \<times> string) list list"
  chat_temperature :: pyval
  chat_max_tokens :: pyval

record chat_usage =
  prompt_tokens :: int
  completion_tokens :: int
  total_tokens :: int

text \<open>A completion: the \<open>message.content\<close> of each choice, and the usage block if present.\<close>

record chat_response =
  choices :: "pyval list"
  usage :: "chat_usage option"

datatype event =
    Http_post post_request
  | Http_get get_request
  | Chat_create client_cfg chat_request
  | Open_pdf string
  | Open_docx string
  | Read_txt string
  | Translate_called pyval string string

text \<open>
  The world answers: environment variables, the two HTTP verbs of \<open>requests\<close>, the Azure
  OpenAI client (its constructor and \<open>chat.completions.create\<close>), the file system and the
  document libraries, the random trace identifier, \<open>os.path.splitext\<close> (which is
  \<open>posixpath\<close>'s or \<open>ntpath\<close>'s, by platform), \<open>str.lower\<close> (which follows the Unicode
  tables), and \<open>str()\<close> of the values whose printed form is not fixed here (floats, lists,
  dictionaries).
  A page of a PDF is what \<open>extract_text()\<close> does on it: raise, or return text or \<open>None\<close>.
\<close>

type_synonym pdf_page = "py_exc + string option"

record world =
  environ :: "string \<rightharpoonup> string"
  requests_post :: "post_request \<Rightarrow> py_exc + http_response"
  requests_get :: "get_request \<Rightarrow> py_exc + http_response"
  uuid4 :: string
  azure_openai_init :: "client_cfg \<Rightarrow> py_exc option"
  chat_completions_create :: "client_cfg \<Rightarrow> chat_request \<Rightarrow> py_exc + chat_response"
  path_exists :: "string \<Rightarrow> bool"
  pdfplumber_open :: "string \<Rightarrow> py_exc + pdf_page list"
  docx_document :: "string \<Rightarrow> py_exc + string list"
  read_utf8 :: "string \<Rightarrow> py_exc + string"
  os_path_splitext :: "string \<Rightarrow> string \<times> string"
  str_lower :: "string \<Rightarrow> string"
  str_other :: "pyval \<Rightarrow> string"

definition getenv :: "world \<Rightarrow> string \<Rightarrow> pyval" where
  "getenv w k = (case environ w k of Some v \<Rightarrow> PStr v | None \<Rightarrow> PNone)"

definition getenv_default :: "world \<Rightarrow> string \<Rightarrow> string \<Rightarrow> string" where
  "getenv_default w k dflt = (case environ w k of Some v \<Rightarrow> v | None \<Rightarrow> dflt)"

text \<open>What an f-string puts in for a value.\<close>

fun py_format :: "world \<Rightarrow> pyval \<Rightarrow> string" where
  "py_format w (PStr s) = s"
| "py_format w PNone = ''None''"
| "py_format w (PBool b) = (if b then ''True'' else ''False'')"
| "py_format w (PInt i) = show_int i"
| "py_format w v = str_other w v"

text \<open>
  \<open>Response.raise_for_status\<close> of the \<open>requests\<close> library: only a status from 400 to 599
  raises, with the response attached to the \<open>HTTPError\<close>.
\<close>

definition raise_for_status :: "http_response \<Rightarrow> py_exc option" where
  "raise_for_status r =
     (if 400 \<le> status_code r \<and> status_code r < 500 then
        Some ((mk_exc HTTPError
                (show_int (status_code r) @ '' Client Error: '' @ reason r
                   @ '' for url: '' @ resp_url r)) \<lparr>exc_response := Some r\<rparr>)
      else if 500 \<le> status_code r \<and> status_code r < 600 then
        Some ((mk_exc HTTPError
                (show_int (status_code r) @ '' Server Error: '' @ reason r
                   @ '' for url: '' @ resp_url r)) \<lparr>exc_response := Some r\<rparr>)
      else None)"

text \<open>
  \<open>response.json()\<close>: the decoding error of \<open>requests\<close> (2.27 and later) is a subclass of
  \<open>RequestException\<close>.
\<close>

definition response_json :: "http_response \<Rightarrow> py_exc + pyval" where
  "response_json r =
     (case resp_json r of Inl msg \<Rightarrow> Inl (mk_exc RequestException msg) | Inr v \<Rightarrow> Inr v)"

definition and_then :: "py_exc + 'a \<Rightarrow> ('a \<Rightarrow> py_exc + 'b) \<Rightarrow> py_exc + 'b" where
  "and_then m f = (case m of Inl e \<Rightarrow> Inl e | Inr v \<Rightarrow> f v)"

section \<open>translator.py\<close>

text \<open>\<open>a or b\<close> and \<open>not a\<close> on the optional string arguments.\<close>

definition of_opt :: "string option \<Rightarrow> pyval" where
  "of_opt a = (case a of None \<Rightarrow> PNone | Some s \<Rightarrow> PStr s)"

definition or_str :: "string option \<Rightarrow> string \<Rightarrow> string" where
  "or_str a b = (case a of None \<Rightarrow> b | Some s \<Rightarrow> if s = [] then b else s)"

text \<open>The dictionary that each failing path of \<open>translate_text\<close> writes out.\<close>

definition translate_failure :: "string \<Rightarrow> pyval \<Rightarrow> string \<Rightarrow> string \<Rightarrow> pydict" where
  "translate_failure err text source_lang target_lang =
     [(''success'', PBool False),
      (''error'', PStr err),
      (''original_text'', text),
      (''translated_text'', PNone),
      (''source_language'', PStr source_lang),
      (''target_language'', PStr target_lang)]"

text \<open>The body of the \<open>try\<close> after \<open>result = response.json()\<close>.\<close>

definition translate_unwrap :: "pyval \<Rightarrow> pyval \<Rightarrow> string \<Rightarrow> string \<Rightarrow> py_exc + pydict" where
  "translate_unwrap result text source_lang target_lang =
     and_then (if py_truthy result then and_then (py_len result) (\<lambda>n. Inr (n > 0)) else Inr False)
       (\<lambda>nonempty.
          if nonempty then
            and_then (py_getitem result (KInt 0)) (\<lambda>translation.
            and_then (py_getitem translation (KStr ''translations'')) (\<lambda>translations.
            and_then (py_getitem translations (KInt 0)) (\<lambda>first.
            and_then (py_getitem first (KStr ''text'')) (\<lambda>translated_text.
            and_then (py_get translation ''detectedLanguage'' (PDict [])) (\<lambda>detected.
            and_then (py_get detected ''language'' PNone) (\<lambda>language.
              Inr [(''success'', PBool True),
                   (''original_text'', text),
                   (''translated_text'', translated_text),
                   (''source_language'', PStr source_lang),
                   (''target_language'', PStr target_lang),
                   (''detected_language'', language),
                   (''error'', PNone)]))))))
          else
            Inr (translate_failure ''Empty response from Translator API''
                   text source_lang target_lang))"

text \<open>
  The inner \<open>try\<close> of the \<open>HTTPError\<close> handler; whatever it raises is swallowed by the bare
  \<open>except\<close>, which leaves \<open>error_msg\<close> as it was.
\<close>

definition error_detail_msg :: "world \<Rightarrow> http_response \<Rightarrow> string \<Rightarrow> py_exc + string" where
  "error_detail_msg w r error_msg =
     and_then (response_json r) (\<lambda>error_detail.
     and_then (py_contains ''error'' error_detail) (\<lambda>present.
       if present then
         and_then (py_getitem error_detail (KStr ''error'')) (\<lambda>err.
         and_then (py_get err ''message'' (PStr [])) (\<lambda>m.
           Inr (error_msg @ '' - '' @ py_format w m)))
       else Inr error_msg))"

definition translate_handlers ::
  "world \<Rightarrow> py_exc \<Rightarrow> pyval \<Rightarrow> string \<Rightarrow> string \<Rightarrow> py_exc + pydict" where
  "translate_handlers w e text source_lang target_lang =
     (if exc_class e = HTTPError then
        (case exc_response e of
           None \<Rightarrow>
             Inl (mk_exc AttributeError
                    (quoted ''NoneType'' @ '' object has no attribute '' @ quoted ''status_code''))
         | Some r \<Rightarrow>
             (let error_msg = ''HTTP Error: '' @ show_int (status_code r);
                  error_msg = (case error_detail_msg w r error_msg of
                                 Inl _ \<Rightarrow> error_msg | Inr m \<Rightarrow> m)
              in Inr (translate_failure error_msg text source_lang target_lang)))
      else if exc_class e = RequestException then
        Inr (translate_failure (''Request failed: '' @ exc_str e) text source_lang target_lang)
      else Inl e)"

definition translate_request ::
  "world \<Rightarrow> pyval \<Rightarrow> string \<Rightarrow> string \<Rightarrow> pyval \<Rightarrow> string \<Rightarrow> string \<Rightarrow> post_request" where
  "translate_request w text source_lang target_lang api_key region endpoint =
     \<lparr>post_url = py_rstrip CHR ''/'' endpoint @ ''/translate'',
      post_params = [(''api-version'', PStr ''3.0''),
                     (''from'', PStr source_lang),
                     (''to'', PStr target_lang)],
      post_headers = [(''Ocp-Apim-Subscription-Key'', api_key),
                      (''Ocp-Apim-Subscription-Region'', PStr region),
                      (''Content-Type'', PStr ''application/json''),
                      (''X-ClientTraceId'', PStr (uuid4 w))],
      post_json = PList [PDict [(''text'', text)]],
      post_timeout = 30\<rparr>"

text \<open>
  \<open>translate_text\<close> never looks into \<open>text\<close>, so any value is taken. The result is the
  returned dictionary or the exception that leaves the function, with the events in order.
\<close>

definition translate_text ::
  "world \<Rightarrow> pyval \<Rightarrow> string \<Rightarrow> string \<Rightarrow> string option \<Rightarrow> string option \<Rightarrow> string option
     \<Rightarrow> (py_exc + pydict) \<times> event list" where
  "translate_text w text source_lang target_lang api_key region endpoint =
     (let api_key = py_or (of_opt api_key) (getenv w ''AZURE_TRANSLATOR_KEY'');
          region = or_str region (getenv_default w ''AZURE_TRANSLATOR_REGION'' ''centralindia'');
          endpoint = or_str endpoint
                       (getenv_default w ''AZURE_TRANSLATOR_ENDPOINT''
                          ''https://api.cognitive.microsofttranslator.com/'')
      in if \<not> py_truthy api_key then
           (Inr (translate_failure ''Missing AZURE_TRANSLATOR_KEY. Please set it in .env file.''
                   text source_lang target_lang), [])
         else
           (let req = translate_request w text source_lang target_lang api_key region endpoint;
                body = and_then (requests_post w req) (\<lambda>response.
                         case raise_for_status response of
                           Some e \<Rightarrow> Inl e
                         | None \<Rightarrow>
                             and_then (response_json response) (\<lambda>result.
                               translate_unwrap result text source_lang target_lang))
            in (case body of
                  Inl e \<Rightarrow> translate_handlers w e text source_lang target_lang
                | Inr d \<Rightarrow> Inr d,
                [Http_post req])))"

definition languages_url :: "world \<Rightarrow> string" where
  "languages_url w =
     py_rstrip CHR ''/''
       (getenv_default w ''AZURE_TRANSLATOR_ENDPOINT''
          ''https://api.cognitive.microsofttranslator.com/'')
       @ ''/languages?api-version=3.0&scope=translation''"

text \<open>
  \<open>get_supported_languages\<close>: the \<open>try\<close> body, then the function with its catch-all handler.
\<close>

definition languages_try :: "world \<Rightarrow> py_exc + pydict" where
  "languages_try w =
     and_then (requests_get w \<lparr>get_url = languages_url w, get_timeout = 30\<rparr>) (\<lambda>response.
       case raise_for_status response of
         Some e \<Rightarrow> Inl e
       | None \<Rightarrow>
           and_then (response_json response) (\<lambda>body.
           and_then (py_get body ''translation'' (PDict [])) (\<lambda>languages.
             Inr [(''success'', PBool True), (''languages'', languages)])))"

definition get_supported_languages :: "world \<Rightarrow> pydict \<times> event list" where
  "get_supported_languages w =
     (case languages_try w of
        Inr d \<Rightarrow> d
      | Inl e \<Rightarrow> [(''success'', PBool False), (''error'', PStr (exc_str e)), (''languages'', PDict [])],
      [Http_get \<lparr>get_url = languages_url w, get_timeout = 30\<rparr>])"

section \<open>openai_client.py\<close>

text \<open>
  \<open>get_openai_client\<close> builds the client from its arguments or the environment; the
  constructor may refuse the configuration.
\<close>

definition get_openai_client :: "world \<Rightarrow> pyval \<Rightarrow> pyval \<Rightarrow> pyval \<Rightarrow> py_exc + client_cfg" where
  "get_openai_client w api_key endpoint api_version =
     (let cfg = \<lparr>cfg_api_key = py_or api_key (getenv w ''AZURE_OPENAI_API_KEY''),
                 cfg_api_version =
                   py_or api_version
                     (PStr (getenv_default w ''AZURE_OPENAI_API_VERSION'' ''2024-02-15-preview'')),
                 cfg_azure_endpoint = py_or endpoint (getenv w ''AZURE_OPENAI_ENDPOINT'')\<rparr>
      in case azure_openai_init w cfg of Some e \<Rightarrow> Inl e | None \<Rightarrow> Inr cfg)"

definition ai_failure :: "string \<Rightarrow> string \<Rightarrow> pydict" where
  "ai_failure err prompt =
     [(''success'', PBool False),
      (''error'', PStr err),
      (''prompt'', PStr prompt),
      (''response'', PNone),
      (''usage'', PNone)]"

text \<open>The message list: the caller's system message if it is truthy, else the default.\<close>

definition build_messages :: "string \<Rightarrow> string option \<Rightarrow> (string \<times> string) list list" where
  "build_messages prompt system_message =
     (case system_message of
        Some s \<Rightarrow>
          (if s \<noteq> [] then [[(''role'', ''system''), (''content'', s)]]
           else
             [[(''role'', ''system''),
               (''content'',
                ''You are a helpful AI assistant. Provide clear, concise, and accurate responses.'')]])
      | None \<Rightarrow>
          [[(''role'', ''system''),
            (''content'',
             ''You are a helpful AI assistant. Provide clear, concise, and accurate responses.'')]])
     @ [[(''role'', ''user''), (''content'', prompt)]]"

definition ai_request ::
  "string \<Rightarrow> string option \<Rightarrow> pyval \<Rightarrow> pyval \<Rightarrow> pyval \<Rightarrow> chat_request" where
  "ai_request prompt system_message temperature max_tokens deployment_name =
     \<lparr>chat_model = deployment_name,
      chat_messages = build_messages prompt system_message,
      chat_temperature = temperature,
      chat_max_tokens = max_tokens\<rparr>"

text \<open>What the \<open>try\<close> does with the completion once it has arrived.\<close>

definition ai_unwrap :: "chat_response \<Rightarrow> string \<Rightarrow> pyval \<Rightarrow> py_exc + pydict" where
  "ai_unwrap response prompt deployment_name =
     (case seq_index (choices response) 0 of
        None \<Rightarrow> Inl (mk_exc IndexError ''list index out of range'')
      | Some response_text \<Rightarrow>
          (case usage response of
             None \<Rightarrow>
               Inl (mk_exc AttributeError
                      (quoted ''NoneType'' @ '' object has no attribute ''
                         @ quoted ''prompt_tokens''))
           | Some u \<Rightarrow>
               Inr [(''success'', PBool True),
                    (''prompt'', PStr prompt),
                    (''response'', response_text),
                    (''usage'', PDict [(''prompt_tokens'', PInt (prompt_tokens u)),
                                       (''completion_tokens'', PInt (completion_tokens u)),
                                       (''total_tokens'', PInt (total_tokens u))]),
                    (''model'', deployment_name),
                    (''error'', PNone)]))"

text \<open>The handler's choice of message: \<open>e.message\<close>, else \<open>e.body['message']\<close>, else \<open>str(e)\<close>.\<close>

definition ai_error_message :: "py_exc \<Rightarrow> pyval" where
  "ai_error_message e =
     (case exc_message e of
        Some m \<Rightarrow> m
      | None \<Rightarrow>
          (case exc_body e of
             Some body \<Rightarrow>
               (if py_truthy body then
                  (case body of
                     PDict d \<Rightarrow>
                       (case map_of d ''message'' of Some m \<Rightarrow> m | None \<Rightarrow> PStr (exc_str e))
                   | _ \<Rightarrow> PStr (exc_str e))
                else PStr (exc_str e))
           | None \<Rightarrow> PStr (exc_str e)))"

definition generate_ai_response ::
  "world \<Rightarrow> string \<Rightarrow> string option \<Rightarrow> pyval \<Rightarrow> pyval \<Rightarrow> pyval \<Rightarrow> pyval \<Rightarrow> pyval
     \<Rightarrow> pydict \<times> event list" where
  "generate_ai_response w prompt system_message temperature max_tokens
       api_key endpoint deployment_name =
     (let api_key = py_or api_key (getenv w ''AZURE_OPENAI_API_KEY'');
          endpoint = py_or endpoint (getenv w ''AZURE_OPENAI_ENDPOINT'');
          deployment_name =
            py_or deployment_name
              (PStr (getenv_default w ''AZURE_OPENAI_DEPLOYMENT_NAME'' ''gpt-4o-mini''))
      in if \<not> py_truthy api_key then
           (ai_failure ''Missing AZURE_OPENAI_API_KEY. Please set it in .env file.'' prompt, [])
         else if \<not> py_truthy endpoint then
           (ai_failure ''Missing AZURE_OPENAI_ENDPOINT. Please set it in .env file.'' prompt, [])
         else
           (case get_openai_client w api_key endpoint PNone of
              Inl e \<Rightarrow>
                (ai_failure (''OpenAI API Error: '' @ py_format w (ai_error_message e)) prompt, [])
            | Inr client \<Rightarrow>
                (let req = ai_request prompt system_message temperature max_tokens deployment_name
                 in (case and_then (chat_completions_create w client req)
                            (\<lambda>response. ai_unwrap response prompt deployment_name) of
                       Inr d \<Rightarrow> d
                     | Inl e \<Rightarrow>
                         ai_failure (''OpenAI API Error: '' @ py_format w (ai_error_message e))
                           prompt,
                     [Chat_create client req]))))"

text \<open>
  Binding \<open>**kwargs\<close> in the call \<open>generate_ai_response(prompt, system_message=..., **kwargs)\<close>:
  a second \<open>system_message\<close> is refused where the call is put together (that message names
  the function with its module), then the keywords are bound in order, and one that names
  \<open>prompt\<close> or no parameter at all is refused.
\<close>

definition ai_keywords :: "string list" where
  "ai_keywords = [''temperature'', ''max_tokens'', ''api_key'', ''endpoint'', ''deployment_name'']"

fun bind_keywords :: "pydict \<Rightarrow> py_exc option" where
  "bind_keywords [] = None"
| "bind_keywords ((k, v) # kwargs) =
     (if k = ''prompt'' then
        Some (mk_exc TypeError
                (''generate_ai_response() got multiple values for argument '' @ quoted k))
      else if k \<notin> set ai_keywords then
        Some (mk_exc TypeError
                (''generate_ai_response() got an unexpected keyword argument '' @ quoted k))
      else bind_keywords kwargs)"

definition call_keywords :: "pydict \<Rightarrow> py_exc option" where
  "call_keywords kwargs =
     (if ''system_message'' \<in> set (map fst kwargs) then
        Some (mk_exc TypeError
                (''openai_client.generate_ai_response() got multiple values for keyword ''
                   @ ''argument '' @ quoted ''system_message''))
      else bind_keywords kwargs)"

definition keyword :: "pydict \<Rightarrow> string \<Rightarrow> pyval \<Rightarrow> pyval" where
  "keyword kwargs k dflt = (case map_of kwargs k of Some v \<Rightarrow> v | None \<Rightarrow> dflt)"

text \<open>The default temperature is the double nearest to 0.7.\<close>

definition default_temperature :: pyval where
  "default_temperature = PFloat (PyFloat 3152519739159347 (- 52))"

definition concise_prompt :: string where
  "concise_prompt = ''Provide a brief, concise summary of the following text in 2-3 sentences:''"

definition style_prompts :: "(string \<times> string) list" where
  "style_prompts =
     [(''concise'', concise_prompt),
      (''detailed'',
       ''Provide a comprehensive summary of the following text, covering all key points:''),
      (''bullet_points'',
       ''Summarize the following text as bullet points highlighting the key information:'')]"

definition summarize_prompt :: "string \<Rightarrow> string \<Rightarrow> string" where
  "summarize_prompt text style =
     (case map_of style_prompts style of Some p \<Rightarrow> p | None \<Rightarrow> concise_prompt)
     @ ''\<newline>\<newline>'' @ text"

definition summarize_text ::
  "world \<Rightarrow> string \<Rightarrow> string \<Rightarrow> pydict \<Rightarrow> (py_exc + pydict) \<times> event list" where
  "summarize_text w text style kwargs =
     (let system_message = ''You are an expert summarizer. Create clear and accurate summaries.'';
          prompt = summarize_prompt text style
      in case call_keywords kwargs of
           Some e \<Rightarrow> (Inl e, [])
         | None \<Rightarrow>
             (case generate_ai_response w prompt (Some system_message)
                     (keyword kwargs ''temperature'' default_temperature)
                     (keyword kwargs ''max_tokens'' (PInt 1000))
                     (keyword kwargs ''api_key'' PNone)
                     (keyword kwargs ''endpoint'' PNone)
                     (keyword kwargs ''deployment_name'' PNone) of
                (d, evs) \<Rightarrow> (Inr d, evs)))"

section \<open>document_processor.py\<close>

definition extract_failure :: "string \<Rightarrow> pydict" where
  "extract_failure err = [(''success'', PBool False), (''text'', PNone), (''error'', PStr err)]"

text \<open>
  The loop over \<open>enumerate(pdf.pages, 1)\<close>: \<open>page_num\<close> counts every page, \<open>text_content\<close>
  grows by the pages whose text is truthy, and a page that raises ends the loop.
\<close>

fun pdf_pages :: "nat \<Rightarrow> pdf_page list \<Rightarrow> string list \<Rightarrow> py_exc + string list" where
  "pdf_pages page_num [] text_content = Inr text_content"
| "pdf_pages page_num (page # pages) text_content =
     (case page of
        Inl e \<Rightarrow> Inl e
      | Inr None \<Rightarrow> pdf_pages (Suc page_num) pages text_content
      | Inr (Some page_text) \<Rightarrow>
          pdf_pages (Suc page_num) pages
            (if page_text \<noteq> [] then
               text_content @ [''--- Page '' @ show_nat page_num @ '' ---\<newline>'' @ page_text]
             else text_content))"

definition extract_text_from_pdf :: "world \<Rightarrow> string \<Rightarrow> pydict \<times> event list" where
  "extract_text_from_pdf w file_path =
     (case and_then (pdfplumber_open w file_path) (\<lambda>pages. pdf_pages 1 pages []) of
        Inr text_content \<Rightarrow>
          [(''success'', PBool True),
           (''text'', PStr (py_join ''\<newline>\<newline>'' text_content)),
           (''page_count'', PInt (int (length text_content))),
           (''file_type'', PStr ''pdf''),
           (''error'', PNone)]
      | Inl e \<Rightarrow> extract_failure (''Failed to extract PDF text: '' @ exc_str e),
      [Open_pdf file_path])"

text \<open>\<open>str.strip()\<close> removes white space at both ends (the white space below code point 256).\<close>

definition is_space :: "char \<Rightarrow> bool" where
  "is_space c = ((of_char c :: nat) \<in> {9, 10, 11, 12, 13, 28, 29, 30, 31, 32, 133, 160})"

definition py_strip :: "string \<Rightarrow> string" where
  "py_strip s = rev (dropWhile is_space (rev (dropWhile is_space s)))"

definition extract_text_from_docx :: "world \<Rightarrow> string \<Rightarrow> pydict \<times> event list" where
  "extract_text_from_docx w file_path =
     (case docx_document w file_path of
        Inr doc_paragraphs \<Rightarrow>
          (let paragraphs = filter (\<lambda>para_text. py_strip para_text \<noteq> []) doc_paragraphs
           in [(''success'', PBool True),
               (''text'', PStr (py_join ''\<newline>\<newline>'' paragraphs)),
               (''paragraph_count'', PInt (int (length paragraphs))),
               (''file_type'', PStr ''docx''),
               (''error'', PNone)])
      | Inl e \<Rightarrow> extract_failure (''Failed to extract DOCX text: '' @ exc_str e),
      [Open_docx file_path])"

definition extract_text_from_txt :: "world \<Rightarrow> string \<Rightarrow> pydict \<times> event list" where
  "extract_text_from_txt w file_path =
     (case read_utf8 w file_path of
        Inr text \<Rightarrow>
          [(''success'', PBool True),
           (''text'', PStr text),
           (''file_type'', PStr ''txt''),
           (''error'', PNone)]
      | Inl e \<Rightarrow> extract_failure (''Failed to read text file: '' @ exc_str e),
      [Read_txt file_path])"

text \<open>
  The type \<open>extract_text\<close> routes on: the caller's if it is truthy, else the extension that
  the platform's \<open>os.path.splitext\<close> gives, lower-cased and without its leading dots.
\<close>

definition extension_type :: "world \<Rightarrow> string \<Rightarrow> string" where
  "extension_type w file_path =
     py_lstrip CHR ''.'' (str_lower w (snd (os_path_splitext w file_path)))"

definition resolve_type :: "world \<Rightarrow> string \<Rightarrow> string option \<Rightarrow> string" where
  "resolve_type w file_path file_type =
     (case file_type of
        None \<Rightarrow> extension_type w file_path
      | Some t \<Rightarrow> if t = [] then extension_type w file_path else t)"

definition extractors :: "(string \<times> (world \<Rightarrow> string \<Rightarrow> pydict \<times> event list)) list" where
  "extractors =
     [(''pdf'', extract_text_from_pdf),
      (''docx'', extract_text_from_docx),
      (''txt'', extract_text_from_txt),
      (''text'', extract_text_from_txt)]"

definition extract_text :: "world \<Rightarrow> string \<Rightarrow> string option \<Rightarrow> pydict \<times> event list" where
  "extract_text w file_path file_type =
     (if \<not> path_exists w file_path then
        (extract_failure (''File not found: '' @ file_path), [])
      else
        (let file_type = resolve_type w file_path file_type
         in case map_of extractors file_type of
              None \<Rightarrow>
                (extract_failure
                   (''Unsupported file type: '' @ file_type @ ''. Supported: pdf, docx, txt''), [])
            | Some extractor \<Rightarrow> extractor w file_path))"

section \<open>main.py\<close>

text \<open>
  A computation is its outcome with the events it caused; \<open>seq\<close> runs one after another and
  stops at the first exception. Console output is left out of the model; the expressions
  that the \<open>print\<close> statements evaluate are kept, since they can raise.
\<close>

type_synonym 'a comp = "(py_exc + 'a) \<times> event list"

definition pure_step :: "py_exc + 'a \<Rightarrow> 'a comp" where
  "pure_step r = (r, [])"

definition seq :: "'a comp \<Rightarrow> ('a \<Rightarrow> 'b comp) \<Rightarrow> 'b comp" where
  "seq m f =
     (case m of
        (Inl e, evs) \<Rightarrow> (Inl e, evs)
      | (Inr v, evs) \<Rightarrow> (case f v of (r, evs') \<Rightarrow> (r, evs @ evs')))"

definition as_value :: "pydict comp \<Rightarrow> pyval comp" where
  "as_value m = (case m of (Inl e, evs) \<Rightarrow> (Inl e, evs) | (Inr d, evs) \<Rightarrow> (Inr (PDict d), evs))"

text \<open>
  The argument of the preview prints, \<open>x[:200] if len(x) > 200 else x\<close>: \<open>len\<close> may raise, and
  a dictionary cannot be sliced.
\<close>

definition py_preview :: "pyval \<Rightarrow> py_exc + unit" where
  "py_preview x =
     and_then (py_len x) (\<lambda>n.
       if n > 200 then
         (case x of
            PDict _ \<Rightarrow> Inl (mk_exc TypeError (''unhashable type: '' @ quoted ''slice''))
          | _ \<Rightarrow> Inr ())
       else Inr ())"

definition stage_failed :: "world \<Rightarrow> pydict \<Rightarrow> string \<Rightarrow> pyval \<Rightarrow> pyval" where
  "stage_failed w result stage err =
     PDict (dict_set (dict_set result ''success'' (PBool False))
              ''error'' (PStr (stage @ '' stage failed: '' @ py_format w err)))"

text \<open>
  The pipeline with its two stage functions as parameters: \<open>process_and_translate\<close> looks
  \<open>summarize_text\<close> and \<open>translate_text\<close> up by name when it runs, which is where a test puts
  its doubles. \<open>after_translate\<close> is the part of the function that follows the call of the
  translate stage.
\<close>

definition after_translate ::
  "world \<Rightarrow> pydict \<Rightarrow> pydict \<Rightarrow> string \<Rightarrow> string \<Rightarrow> pyval \<Rightarrow> pyval \<Rightarrow> pyval comp" where
  "after_translate w result stages input_text target_language summary translation_result =
     (let stages = dict_set stages ''translator'' translation_result;
          result = dict_set result ''stages'' (PDict stages)
      in seq (pure_step (py_getitem translation_result (KStr ''success''))) (\<lambda>ok.
           if \<not> py_truthy ok then
             seq (pure_step (py_getitem translation_result (KStr ''error''))) (\<lambda>err.
               pure_step (Inr (stage_failed w result ''Translator'' err)))
           else
             seq (pure_step (py_getitem translation_result (KStr ''translated_text'')))
               (\<lambda>translated_text.
             seq (pure_step (py_preview translated_text)) (\<lambda>_.
               pure_step
                 (Inr (PDict
                    (dict_set (dict_set result ''success'' (PBool True))
                       ''final_output''
                       (PDict [(''original_text'', PStr input_text),
                               (''english_summary'', summary),
                               (''translated_summary'', translated_text),
                               (''target_language'', PStr target_language)]))))))))"

definition process_and_translate_with ::
  "world \<Rightarrow> (string \<Rightarrow> string \<Rightarrow> pyval comp) \<Rightarrow> (pyval \<Rightarrow> string \<Rightarrow> string \<Rightarrow> pyval comp)
     \<Rightarrow> string \<Rightarrow> string \<Rightarrow> string \<Rightarrow> pyval comp" where
  "process_and_translate_with w summarize translate input_text target_language summary_style =
     (let result = [(''input'', PStr input_text),
                    (''target_language'', PStr target_language),
                    (''stages'', PDict [])]
      in seq (summarize input_text summary_style) (\<lambda>summary_result.
           (let stages = dict_set [] ''openai_summary'' summary_result;
                result = dict_set result ''stages'' (PDict stages)
            in seq (pure_step (py_getitem summary_result (KStr ''success''))) (\<lambda>ok.
                 if \<not> py_truthy ok then
                   seq (pure_step (py_getitem summary_result (KStr ''error''))) (\<lambda>err.
                     pure_step (Inr (stage_failed w result ''OpenAI'' err)))
                 else
                   seq (pure_step (py_getitem summary_result (KStr ''response''))) (\<lambda>summary.
                   seq (pure_step (py_preview summary)) (\<lambda>_.
                   seq (pure_step (and_then (py_getitem summary_result (KStr ''usage''))
                                     (\<lambda>u. py_getitem u (KStr ''total_tokens'')))) (\<lambda>_.
                   seq (translate summary ''en'' target_language) (\<lambda>translation_result.
                     after_translate w result stages input_text target_language
                       summary translation_result))))))))"

text \<open>The two stages as \<open>main.py\<close> calls them, and the pipeline on them.\<close>

definition summarize_stage :: "world \<Rightarrow> string \<Rightarrow> string \<Rightarrow> pyval comp" where
  "summarize_stage w text style = as_value (summarize_text w text style [])"

definition translate_stage :: "world \<Rightarrow> pyval \<Rightarrow> string \<Rightarrow> string \<Rightarrow> pyval comp" where
  "translate_stage w text source_lang target_lang =
     as_value (translate_text w text source_lang target_lang None None None)"

definition process_and_translate :: "world \<Rightarrow> string \<Rightarrow> string \<Rightarrow> string \<Rightarrow> pyval comp" where
  "process_and_translate w =
     process_and_translate_with w (summarize_stage w) (translate_stage w)"

text \<open>A test double around a translate stage: it records each call with its arguments.\<close>

definition recording ::
  "(pyval \<Rightarrow> string \<Rightarrow> string \<Rightarrow> pyval comp) \<Rightarrow> pyval \<Rightarrow> string \<Rightarrow> string \<Rightarrow> pyval comp" where
  "recording translate text source_lang target_lang =
     (case translate text source_lang target_lang of
        (r, evs) \<Rightarrow> (r, Translate_called text source_lang target_lang # evs))"

section \<open>What the specification speaks of\<close>

text \<open>
  The text of the first translation candidate in the provider's payload,
  \<open>result[0]["translations"][0]["text"]\<close>.
\<close>

definition first_candidate_text :: "pyval \<Rightarrow> py_exc + pyval" where
  "first_candidate_text result =
     and_then (py_getitem result (KInt 0)) (\<lambda>translation.
     and_then (py_getitem translation (KStr ''translations'')) (\<lambda>translations.
     and_then (py_getitem translations (KInt 0)) (\<lambda>first.
       py_getitem first (KStr ''text''))))"

text \<open>
  The specification's PDF text: every page that has text, under its label
  \<open>--- Page N ---\<close> with \<open>N\<close> the page's number in the document, the pages a blank line apart.
\<close>

definition labelled_pages :: "nat \<Rightarrow> string option list \<Rightarrow> string list" where
  "labelled_pages first_num texts =
     [''--- Page '' @ show_nat n @ '' ---\<newline>'' @ t.
        (n, Some t) \<leftarrow> zip [first_num ..< first_num + length texts] texts, t \<noteq> []]"

definition has_text :: "string option \<Rightarrow> bool" where
  "has_text t = (case t of None \<Rightarrow> False | Some s \<Rightarrow> s \<noteq> [])"

text \<open>The specification's instruction line for a summary style, the concise one by default.\<close>

definition style_instruction :: "string \<Rightarrow> string" where
  "style_instruction style =
     (if style = ''detailed'' then
        ''Provide a comprehensive summary of the following text, covering all key points:''
      else if style = ''bullet_points'' then
        ''Summarize the following text as bullet points highlighting the key information:''
      else ''Provide a brief, concise summary of the following text in 2-3 sentences:'')"

section \<open>Sample worlds\<close>

text \<open>
  The sample machines are POSIX machines and their paths are ASCII. \<open>posixpath.splitext\<close>:
  the extension starts at the last dot of the last path component, unless only dots stand
  before it there. \<open>str.lower\<close> on ASCII text lowers the letters \<open>A\<close> to \<open>Z\<close>.
\<close>

definition rfind :: "char \<Rightarrow> string \<Rightarrow> int" where
  "rfind c p =
     (case find (\<lambda>i. p ! i = c) (rev [0 ..< length p]) of Some i \<Rightarrow> int i | None \<Rightarrow> - 1)"

definition posix_splitext :: "string \<Rightarrow> string \<times> string" where
  "posix_splitext p =
     (let sepIndex = rfind CHR ''/'' p;
          dotIndex = rfind CHR ''.'' p
      in if dotIndex > sepIndex
            \<and> list_ex (\<lambda>c. c \<noteq> CHR ''.'')
                 (take (nat (dotIndex - (sepIndex + 1))) (drop (nat (sepIndex + 1)) p))
         then (take (nat dotIndex) p, drop (nat dotIndex) p)
         else (p, []))"

definition ascii_lower_char :: "char \<Rightarrow> char" where
  "ascii_lower_char c =
     (if 65 \<le> (of_char c :: nat) \<and> (of_char c :: nat) \<le> 90
      then char_of ((of_char c :: nat) + 32) else c)"

definition ascii_lower :: "string \<Rightarrow> string" where
  "ascii_lower s = map ascii_lower_char s"

text \<open>A machine with nothing configured and no network.\<close>

definition offline_world :: world where
  "offline_world =
     \<lparr>environ = Map.empty,
      requests_post = (\<lambda>_. Inl (mk_exc RequestException ''connection refused'')),
      requests_get = (\<lambda>_. Inl (mk_exc RequestException ''connection refused'')),
      uuid4 = ''00000000-0000-4000-8000-000000000000'',
      azure_openai_init = (\<lambda>_. None),
      chat_completions_create = (\<lambda>_ _. Inl (mk_exc OtherException ''Connection error.'')),
      path_exists = (\<lambda>_. False),
      pdfplumber_open = (\<lambda>_. Inl (mk_exc OtherException ''No such file'')),
      docx_document = (\<lambda>_. Inl (mk_exc OtherException ''No such file'')),
      read_utf8 = (\<lambda>_. Inl (mk_exc OtherException ''No such file'')),
      os_path_splitext = posix_splitext,
      str_lower = ascii_lower,
      str_other = (\<lambda>_. ''?'')\<rparr>"

text \<open>
  A configured machine whose providers answer as their interfaces say, with three files:
  a PDF of three pages, the second without text.
\<close>

definition stub_environ :: "string \<rightharpoonup> string" where
  "stub_environ =
     [''AZURE_TRANSLATOR_KEY'' \<mapsto> ''translator-key'',
      ''AZURE_OPENAI_API_KEY'' \<mapsto> ''openai-key'',
      ''AZURE_OPENAI_ENDPOINT'' \<mapsto> ''https://example.openai.azure.com/'']"

definition stub_response :: "int \<Rightarrow> pyval \<Rightarrow> http_response" where
  "stub_response code body =
     \<lparr>status_code = code, reason = ''stub'', resp_url = ''stub'', resp_json = Inr body\<rparr>"

definition stub_pages :: "string option list" where
  "stub_pages = [Some ''Hello'', Some [], Some ''World'']"

definition stub_world :: world where
  "stub_world =
     \<lparr>environ = stub_environ,
      requests_post =
        (\<lambda>_. Inr (stub_response 200
                     (PList [PDict [(''translations'',
                                     PList [PDict [(''text'', PStr ''Namaste'')]])]]))),
      requests_get =
        (\<lambda>_. Inr (stub_response 200
                     (PDict [(''translation'',
                              PDict [(''hi'', PDict [(''name'', PStr ''Hindi'')])])]))),
      uuid4 = ''00000000-0000-4000-8000-000000000000'',
      azure_openai_init = (\<lambda>_. None),
      chat_completions_create =
        (\<lambda>_ _. Inr \<lparr>choices = [PStr ''A short summary.''],
                      usage = Some \<lparr>prompt_tokens = 12, completion_tokens = 5,
                                     total_tokens = 17\<rparr>\<rparr>),
      path_exists = (\<lambda>p. p \<in> {''report.pdf'', ''notes.text'', ''setup.exe''}),
      pdfplumber_open = (\<lambda>_. Inr (map Inr stub_pages)),
      docx_document = (\<lambda>_. Inr [''First'', '' '', ''Second'']),
      read_utf8 = (\<lambda>_. Inr ''plain text''),
      os_path_splitext = posix_splitext,
      str_lower = ascii_lower,
      str_other = (\<lambda>_. ''?'')\<rparr>"

text \<open>The same machine with a translation provider that sends a candidate whose text is null.\<close>

definition null_text_world :: world where
  "null_text_world =
     stub_world
       \<lparr>requests_post :=
          (\<lambda>_. Inr (stub_response 200
                       (PList [PDict [(''translations'', PList [PDict [(''text'', PNone)]])]])))\<rparr>"

text \<open>
  The same machine with providers that answer with a given status: the translation with an
  empty array, the language list with an empty mapping.
\<close>

definition status_world :: "int \<Rightarrow> world" where
  "status_world code =
     stub_world
       \<lparr>requests_post := (\<lambda>_. Inr (stub_response code (PList []))),
        requests_get := (\<lambda>_. Inr (stub_response code (PDict [(''translation'', PDict [])])))\<rparr>"

text \<open>The same machine with a translation provider that refuses the key.\<close>

definition unauthorized_world :: world where
  "unauthorized_world =
     stub_world
       \<lparr>requests_post :=
          (\<lambda>_. Inr (stub_response 401
                       (PDict [(''error'', PDict [(''code'', PInt 401000),
                                                  (''message'', PStr ''Access denied'')])])))\<rparr>"

section \<open>Verified properties: translator.py\<close>

subsection \<open>Missing translator key\<close>

text \<open>
  Claim C3. When \<open>translate_text\<close> has no API key, neither as argument nor in the
  environment (each absent or empty), it returns the failure result at once: the list of
  events is empty, so no network call was made, and the error message tells the caller to
  set \<open>AZURE_TRANSLATOR_KEY\<close> in the \<open>.env\<close> file.
\<close>

theorem translate_text_missing_key:
  assumes "api_key = None \<or> api_key = Some []"
    and "environ w ''AZURE_TRANSLATOR_KEY'' = None \<or> environ w ''AZURE_TRANSLATOR_KEY'' = Some []"
  shows "translate_text w text source_lang target_lang api_key region endpoint =
           (Inr [(''success'', PBool False),
                 (''error'', PStr ''Missing AZURE_TRANSLATOR_KEY. Please set it in .env file.''),
                 (''original_text'', text),
                 (''translated_text'', PNone),
                 (''source_language'', PStr source_lang),
                 (''target_language'', PStr target_lang)], [])"
  using assms
  by (auto simp: translate_text_def translate_failure_def py_or_def of_opt_def getenv_def Let_def)

text \<open>
  On the machine with nothing configured, with the empty string as key argument.
\<close>

theorem translate_text_missing_key_witness:
  "environ offline_world ''AZURE_TRANSLATOR_KEY'' = None \<and>
   translate_text offline_world (PStr ''Hello'') ''en'' ''hi'' (Some []) None None =
     (Inr [(''success'', PBool False),
           (''error'', PStr ''Missing AZURE_TRANSLATOR_KEY. Please set it in .env file.''),
           (''original_text'', PStr ''Hello''),
           (''translated_text'', PNone),
           (''source_language'', PStr ''en''),
           (''target_language'', PStr ''hi'')], [])"
proof -
  have env: "environ offline_world ''AZURE_TRANSLATOR_KEY'' = None"
    by (simp add: offline_world_def)
  show ?thesis
    using env translate_text_missing_key [of "Some []" offline_world "PStr ''Hello''" "''en''" "''hi''" None None]
    by simp
qed

subsection \<open>Shape of the translation result\<close>

lemma translate_failure_fields:
  "map_of (translate_failure msg text src tgt) ''success'' = Some (PBool False)"
  "map_of (translate_failure msg text src tgt) ''error'' = Some (PStr msg)"
  "map_of (translate_failure msg text src tgt) ''translated_text'' = Some PNone"
  by (simp_all add: translate_failure_def)

lemma translate_handlers_returns:
  assumes "translate_handlers w e text src tgt = Inr d"
  shows "\<exists>msg. msg \<noteq> [] \<and> d = translate_failure msg text src tgt"
proof (cases "exc_class e = HTTPError")
  case True
  with assms obtain r where r: "exc_response e = Some r"
    by (auto simp: translate_handlers_def split: option.splits)
  define base where "base = ''HTTP Error: '' @ show_int (status_code r)"
  have base: "base \<noteq> []" by (simp add: base_def)
  show ?thesis
  proof (cases "error_detail_msg w r base")
    case (Inl x)
    with assms True r have "d = translate_failure base text src tgt"
      by (simp add: translate_handlers_def base_def Let_def)
    with base show ?thesis by blast
  next
    case (Inr m)
    then have "m = base \<or> (\<exists>x. m = base @ x)"
      by (auto simp: error_detail_msg_def and_then_def split: sum.splits if_splits)
    with base have "m \<noteq> []" by auto
    moreover from assms True r Inr have "d = translate_failure m text src tgt"
      by (simp add: translate_handlers_def base_def Let_def)
    ultimately show ?thesis by blast
  qed
next
  case False
  with assms show ?thesis
    by (auto simp: translate_handlers_def split: if_splits)
qed

lemma translate_unwrap_returns:
  assumes "translate_unwrap result text src tgt = Inr d"
  shows "d = translate_failure ''Empty response from Translator API'' text src tgt
         \<or> (\<exists>v. first_candidate_text result = Inr v
                \<and> map_of d ''success'' = Some (PBool True)
                \<and> map_of d ''error'' = Some PNone
                \<and> map_of d ''translated_text'' = Some v)"
  using assms
  by (auto simp: translate_unwrap_def first_candidate_text_def and_then_def
           split: sum.splits if_splits)

text \<open>
  Claim C1, as stated, fails: a successful result can have neither \<open>translated_text\<close> nor
  \<open>error\<close> populated. \<open>translate_text\<close> hands on the text of the first candidate as the
  provider sent it, and when that is null the result has \<open>success\<close> true with both fields
  null.
\<close>

theorem translate_text_null_text_counterexample:
  "translate_text null_text_world (PStr ''Hello'') ''en'' ''hi'' None None None =
     (Inr [(''success'', PBool True),
           (''original_text'', PStr ''Hello''),
           (''translated_text'', PNone),
           (''source_language'', PStr ''en''),
           (''target_language'', PStr ''hi''),
           (''detected_language'', PNone),
           (''error'', PNone)],
      [Http_post
         \<lparr>post_url = ''https://api.cognitive.microsofttranslator.com/translate'',
          post_params = [(''api-version'', PStr ''3.0''),
                         (''from'', PStr ''en''),
                         (''to'', PStr ''hi'')],
          post_headers = [(''Ocp-Apim-Subscription-Key'', PStr ''translator-key''),
                          (''Ocp-Apim-Subscription-Region'', PStr ''centralindia''),
                          (''Content-Type'', PStr ''application/json''),
                          (''X-ClientTraceId'', PStr ''00000000-0000-4000-8000-000000000000'')],
          post_json = PList [PDict [(''text'', PStr ''Hello'')]],
          post_timeout = 30\<rparr>])"
  by code_simp

text \<open>
  Claim C1, amended. Every result that \<open>translate_text\<close> returns is of one of two shapes.
  Failure: \<open>success\<close> is false, \<open>error\<close> is a non-empty message and \<open>translated_text\<close> is null.
  Success: \<open>success\<close> is true, \<open>error\<close> is null, one request was posted, and
  \<open>translated_text\<close> is the text of the first translation candidate in the provider's
  answer to it, as sent; so it is null only if the provider sent null.
\<close>

theorem translate_text_result:
  assumes "translate_text w text source_lang target_lang api_key region endpoint = (Inr d, evs)"
  shows "(map_of d ''success'' = Some (PBool False)
            \<and> (\<exists>msg. msg \<noteq> [] \<and> map_of d ''error'' = Some (PStr msg))
            \<and> map_of d ''translated_text'' = Some PNone)
         \<or> (map_of d ''success'' = Some (PBool True)
            \<and> map_of d ''error'' = Some PNone
            \<and> (\<exists>req response result v.
                  evs = [Http_post req]
                  \<and> requests_post w req = Inr response
                  \<and> resp_json response = Inr result
                  \<and> first_candidate_text result = Inr v
                  \<and> map_of d ''translated_text'' = Some v))"
proof -
  define key where "key = py_or (of_opt api_key) (getenv w ''AZURE_TRANSLATOR_KEY'')"
  define req where "req = translate_request w text source_lang target_lang key
      (or_str region (getenv_default w ''AZURE_TRANSLATOR_REGION'' ''centralindia''))
      (or_str endpoint (getenv_default w ''AZURE_TRANSLATOR_ENDPOINT''
                          ''https://api.cognitive.microsofttranslator.com/''))"
  define body where "body = and_then (requests_post w req) (\<lambda>response.
                         case raise_for_status response of
                           Some e \<Rightarrow> Inl e
                         | None \<Rightarrow>
                             and_then (response_json response) (\<lambda>result.
                               translate_unwrap result text source_lang target_lang))"
  have unfolded: "translate_text w text source_lang target_lang api_key region endpoint =
      (if \<not> py_truthy key then
         (Inr (translate_failure ''Missing AZURE_TRANSLATOR_KEY. Please set it in .env file.''
                 text source_lang target_lang), [])
       else (case body of
               Inl e \<Rightarrow> translate_handlers w e text source_lang target_lang
             | Inr d \<Rightarrow> Inr d, [Http_post req]))"
    unfolding translate_text_def key_def req_def body_def Let_def by (rule refl)
  show ?thesis
  proof (cases "py_truthy key")
    case False
    with assms unfolded
    have "d = translate_failure ''Missing AZURE_TRANSLATOR_KEY. Please set it in .env file.''
                text source_lang target_lang"
      by simp
    then show ?thesis by (simp add: translate_failure_fields)
  next
    case True
    with assms unfolded have evs: "evs = [Http_post req]"
      and out: "(case body of Inl e \<Rightarrow> translate_handlers w e text source_lang target_lang
                | Inr d \<Rightarrow> Inr d) = Inr d"
      by simp_all
    show ?thesis
    proof (cases body)
      case (Inl e)
      with out have "translate_handlers w e text source_lang target_lang = Inr d" by simp
      from translate_handlers_returns [OF this] show ?thesis
        by (auto simp: translate_failure_fields)
    next
      case (Inr d')
      with out have d: "d' = d" by simp
      from Inr obtain response result where post: "requests_post w req = Inr response"
        and json: "resp_json response = Inr result"
        and unwrap: "translate_unwrap result text source_lang target_lang = Inr d'"
        by (auto simp: body_def and_then_def response_json_def split: sum.splits option.splits)
      from translate_unwrap_returns [OF unwrap] d evs post json show ?thesis
        by (auto simp: translate_failure_fields)
    qed
  qed
qed

text \<open>
  On the configured machine, whose provider answers with the candidate \<open>Namaste\<close>.
\<close>

theorem translate_text_result_witness:
  "translate_text stub_world (PStr ''Hello'') ''en'' ''hi'' None None None =
     (Inr [(''success'', PBool True),
           (''original_text'', PStr ''Hello''),
           (''translated_text'', PStr ''Namaste''),
           (''source_language'', PStr ''en''),
           (''target_language'', PStr ''hi''),
           (''detected_language'', PNone),
           (''error'', PNone)],
      [Http_post (translate_request stub_world (PStr ''Hello'') ''en'' ''hi''
                    (PStr ''translator-key'') ''centralindia''
                    ''https://api.cognitive.microsofttranslator.com/'')])
   \<and> first_candidate_text
         (PList [PDict [(''translations'', PList [PDict [(''text'', PStr ''Namaste'')]])]]) =
       Inr (PStr ''Namaste'')"
proof -
  let ?d = "[(''success'', PBool True),
           (''original_text'', PStr ''Hello''),
           (''translated_text'', PStr ''Namaste''),
           (''source_language'', PStr ''en''),
           (''target_language'', PStr ''hi''),
           (''detected_language'', PNone),
           (''error'', PNone)]"
  let ?req = "translate_request stub_world (PStr ''Hello'') ''en'' ''hi''
                    (PStr ''translator-key'') ''centralindia''
                    ''https://api.cognitive.microsofttranslator.com/''"
  have run: "translate_text stub_world (PStr ''Hello'') ''en'' ''hi'' None None None =
               (Inr ?d, [Http_post ?req])"
    by code_simp
  have post: "requests_post stub_world r = Inr (stub_response 200
                     (PList [PDict [(''translations'',
                                     PList [PDict [(''text'', PStr ''Namaste'')]])]]))" for r
    by (simp add: stub_world_def)
  have "map_of ?d ''success'' \<noteq> Some (PBool False)" by simp
  with translate_text_result [OF run]
  obtain req response result v where "requests_post stub_world req = Inr response"
    "resp_json response = Inr result" "first_candidate_text result = Inr v"
    "map_of ?d ''translated_text'' = Some v"
    by blast
  with post have "first_candidate_text
         (PList [PDict [(''translations'', PList [PDict [(''text'', PStr ''Namaste'')]])]]) =
       Inr (PStr ''Namaste'')"
    by (auto simp: stub_response_def)
  with run show ?thesis by simp
qed

subsection \<open>Empty answer and HTTP error\<close>

lemma translate_text_sent:
  assumes "snd (translate_text w text source_lang target_lang api_key region endpoint) =
             [Http_post req]"
  shows "fst (translate_text w text source_lang target_lang api_key region endpoint) =
           (case and_then (requests_post w req) (\<lambda>response.
                   case raise_for_status response of
                     Some e \<Rightarrow> Inl e
                   | None \<Rightarrow>
                       and_then (response_json response) (\<lambda>result.
                         translate_unwrap result text source_lang target_lang)) of
              Inl e \<Rightarrow> translate_handlers w e text source_lang target_lang
            | Inr d \<Rightarrow> Inr d)"
  using assms by (simp add: translate_text_def Let_def split: if_splits)

lemma raise_for_status_error:
  assumes "400 \<le> status_code r" "status_code r < 600"
  shows "\<exists>e. raise_for_status r = Some e \<and> exc_class e = HTTPError \<and> exc_response e = Some r"
  using assms by (auto simp: raise_for_status_def mk_exc_def)

lemma raise_for_status_pass:
  assumes "\<not> (400 \<le> status_code r \<and> status_code r < 600)"
  shows "raise_for_status r = None"
  using assms by (auto simp: raise_for_status_def)

lemma http_error_result:
  assumes "exc_class e = HTTPError" "exc_response e = Some r"
  shows "translate_handlers w e text src tgt =
           Inr (translate_failure
                  (case error_detail_msg w r (''HTTP Error: '' @ show_int (status_code r)) of
                     Inl _ \<Rightarrow> ''HTTP Error: '' @ show_int (status_code r)
                   | Inr m \<Rightarrow> m) text src tgt)"
  using assms by (simp add: translate_handlers_def Let_def cong: sum.case_cong)

lemma error_detail_msg_undecoded:
  "resp_json r = Inl m \<Longrightarrow> error_detail_msg w r base = Inl (mk_exc RequestException m)"
  by (simp add: error_detail_msg_def and_then_def response_json_def)

lemma error_detail_msg_structured:
  assumes "resp_json r = Inr (PDict body)" "map_of body ''error'' = Some (PDict err)"
  shows "error_detail_msg w r base =
           Inr (base @ '' - ''
                  @ py_format w (case map_of err ''message'' of Some m \<Rightarrow> m | None \<Rightarrow> PStr []))"
proof -
  from assms(2) have "''error'' \<in> fst ` set body"
    by (metis domI dom_map_of_conv_image_fst)
  with assms show ?thesis
    by (simp add: error_detail_msg_def and_then_def response_json_def)
qed

lemma error_detail_msg_extends:
  "error_detail_msg w r base = Inr m \<Longrightarrow> \<exists>detail. m = base @ detail"
  by (auto simp: error_detail_msg_def and_then_def split: sum.splits if_splits)

lemma error_detail_msg_cases:
  "(\<forall>m. resp_json r = Inl m \<longrightarrow> error_detail_msg w r base = Inl (mk_exc RequestException m))
   \<and> (\<forall>body err. resp_json r = Inr (PDict body) \<and> map_of body ''error'' = Some (PDict err) \<longrightarrow>
         error_detail_msg w r base =
           Inr (base @ '' - ''
                  @ py_format w (case map_of err ''message'' of Some m \<Rightarrow> m | None \<Rightarrow> PStr [])))
   \<and> (\<forall>m. error_detail_msg w r base = Inr m \<longrightarrow> (\<exists>detail. m = base @ detail))"
  using error_detail_msg_undecoded [of r _ w base] error_detail_msg_structured [of r _ _ w base]
    error_detail_msg_extends [of w r base]
  by blast

text \<open>
  Claim C8, as stated, fails for the statuses that are neither 2xx nor an error to
  \<open>raise_for_status\<close>: a response with status 300 and an empty array gives the very result
  of a response with status 200 and an empty array, the \<open>Empty response\<close> failure, with no
  status code in it.
\<close>

theorem translate_text_redirect_counterexample:
  "translate_text (status_world 300) (PStr ''Hello'') ''en'' ''hi'' None None None =
     translate_text (status_world 200) (PStr ''Hello'') ''en'' ''hi'' None None None
   \<and> fst (translate_text (status_world 300) (PStr ''Hello'') ''en'' ''hi'' None None None) =
       Inr [(''success'', PBool False),
            (''error'', PStr ''Empty response from Translator API''),
            (''original_text'', PStr ''Hello''),
            (''translated_text'', PNone),
            (''source_language'', PStr ''en''),
            (''target_language'', PStr ''hi'')]"
  by code_simp

text \<open>
  Claim C8, amended. Let the request be sent and answered. If the status is not in the
  range 400 to 599 (so for every 2xx status) and the decoded body is the empty array, the
  result is the failure \<open>Empty response from Translator API\<close>. If the status is in the range
  400 to 599, the result is a failure whose message is \<open>HTTP Error:\<close> and the status code,
  followed by nothing when the body does not decode, and by \<open>" - "\<close> and the provider's
  \<open>error.message\<close> when the body is an object whose \<open>error\<close> is an object; this message is
  never the one of the empty answer.
\<close>

theorem translate_text_empty_or_http_error:
  assumes "snd (translate_text w text source_lang target_lang api_key region endpoint) =
             [Http_post req]"
    and "requests_post w req = Inr response"
  shows "(\<not> (400 \<le> status_code response \<and> status_code response < 600)
            \<and> resp_json response = Inr (PList []) \<longrightarrow>
            fst (translate_text w text source_lang target_lang api_key region endpoint) =
              Inr (translate_failure ''Empty response from Translator API''
                     text source_lang target_lang))
         \<and> (400 \<le> status_code response \<and> status_code response < 600 \<longrightarrow>
              (\<exists>detail.
                 fst (translate_text w text source_lang target_lang api_key region endpoint) =
                   Inr (translate_failure
                          (''HTTP Error: '' @ show_int (status_code response) @ detail)
                          text source_lang target_lang)
                 \<and> ''HTTP Error: '' @ show_int (status_code response) @ detail
                     \<noteq> ''Empty response from Translator API''
                 \<and> ((\<exists>m. resp_json response = Inl m) \<longrightarrow> detail = [])
                 \<and> (\<forall>body err. resp_json response = Inr (PDict body)
                        \<and> map_of body ''error'' = Some (PDict err) \<longrightarrow>
                        detail = '' - '' @ py_format w (case map_of err ''message'' of
                                                          Some m \<Rightarrow> m | None \<Rightarrow> PStr []))))"
proof -
  let ?out = "fst (translate_text w text source_lang target_lang api_key region endpoint)"
  let ?base = "''HTTP Error: '' @ show_int (status_code response)"
  note sent = translate_text_sent [OF assms(1)]
  have empty: "?out = Inr (translate_failure ''Empty response from Translator API''
                     text source_lang target_lang)"
    if "\<not> (400 \<le> status_code response \<and> status_code response < 600)"
      and "resp_json response = Inr (PList [])"
    using that assms(2) raise_for_status_pass [OF that(1)]
    by (simp add: sent and_then_def response_json_def translate_unwrap_def)
  have refused: "\<exists>detail.
                 ?out = Inr (translate_failure (?base @ detail) text source_lang target_lang)
                 \<and> ?base @ detail \<noteq> ''Empty response from Translator API''
                 \<and> ((\<exists>m. resp_json response = Inl m) \<longrightarrow> detail = [])
                 \<and> (\<forall>body err. resp_json response = Inr (PDict body)
                        \<and> map_of body ''error'' = Some (PDict err) \<longrightarrow>
                        detail = '' - '' @ py_format w (case map_of err ''message'' of
                                                          Some m \<Rightarrow> m | None \<Rightarrow> PStr []))"
    if "400 \<le> status_code response \<and> status_code response < 600"
  proof -
    from that obtain e where e: "raise_for_status response = Some e"
      "exc_class e = HTTPError" "exc_response e = Some response"
      using raise_for_status_error [of response] by blast
    have out: "?out = Inr (translate_failure
                  (case error_detail_msg w response ?base of Inl _ \<Rightarrow> ?base | Inr m \<Rightarrow> m)
                  text source_lang target_lang)"
      using assms(2) e by (simp add: sent and_then_def http_error_result)
    note cases = error_detail_msg_cases [of response w ?base]
    show ?thesis
    proof (cases "error_detail_msg w response ?base")
      case (Inl x)
      with out have "?out = Inr (translate_failure (?base @ []) text source_lang target_lang)"
        by simp
      moreover from Inl cases
      have "\<forall>body err. resp_json response = Inr (PDict body)
                        \<and> map_of body ''error'' = Some (PDict err) \<longrightarrow>
                        [] = '' - '' @ py_format w (case map_of err ''message'' of
                                                          Some m \<Rightarrow> m | None \<Rightarrow> PStr [])"
        by auto
      ultimately show ?thesis by (intro exI [of _ "[]"]) simp
    next
      case (Inr m)
      with cases obtain detail where m: "m = ?base @ detail" by blast
      with out Inr have "?out = Inr (translate_failure (?base @ detail) text source_lang target_lang)"
        by simp
      moreover from Inr cases m
      have "(\<exists>m. resp_json response = Inl m) \<longrightarrow> detail = []"
        by auto
      moreover from Inr cases m
      have "\<forall>body err. resp_json response = Inr (PDict body)
                        \<and> map_of body ''error'' = Some (PDict err) \<longrightarrow>
                        detail = '' - '' @ py_format w (case map_of err ''message'' of
                                                          Some m \<Rightarrow> m | None \<Rightarrow> PStr [])"
        by auto
      ultimately show ?thesis by (intro exI [of _ detail]) simp
    qed
  qed
  from empty refused show ?thesis
    unfolding append_assoc by blast
qed

text \<open>
  On the provider that answers 200 with an empty array, and on the one that refuses the
  key with status 401 and a structured error.
\<close>

theorem translate_text_empty_or_http_error_witness:
  "fst (translate_text (status_world 200) (PStr ''Hello'') ''en'' ''hi'' None None None) =
     Inr (translate_failure ''Empty response from Translator API'' (PStr ''Hello'') ''en'' ''hi'')
   \<and> fst (translate_text unauthorized_world (PStr ''Hello'') ''en'' ''hi'' None None None) =
     Inr (translate_failure ''HTTP Error: 401 - Access denied'' (PStr ''Hello'') ''en'' ''hi'')"
proof -
  let ?req = "translate_request stub_world (PStr ''Hello'') ''en'' ''hi''
                (PStr ''translator-key'') ''centralindia''
                ''https://api.cognitive.microsofttranslator.com/''"
  let ?body = "[(''error'', PDict [(''code'', PInt 401000), (''message'', PStr ''Access denied'')])]"
  have sent_ok: "snd (translate_text (status_world 200) (PStr ''Hello'') ''en'' ''hi''
                    None None None) = [Http_post ?req]"
    by code_simp
  have answer_ok: "requests_post (status_world 200) ?req = Inr (stub_response 200 (PList []))"
    by (simp add: status_world_def)
  have sent_refused: "snd (translate_text unauthorized_world (PStr ''Hello'') ''en'' ''hi''
                    None None None) = [Http_post ?req]"
    by code_simp
  have answer_refused: "requests_post unauthorized_world ?req = Inr (stub_response 401 (PDict ?body))"
    by (simp add: unauthorized_world_def)
  have code: "show_int 401 = ''401''"
    by code_simp
  from translate_text_empty_or_http_error [OF sent_ok answer_ok]
  have first: "fst (translate_text (status_world 200) (PStr ''Hello'') ''en'' ''hi'' None None None) =
     Inr (translate_failure ''Empty response from Translator API'' (PStr ''Hello'') ''en'' ''hi'')"
    by (simp add: stub_response_def)
  from translate_text_empty_or_http_error [OF sent_refused answer_refused]
  obtain detail where
    "fst (translate_text unauthorized_world (PStr ''Hello'') ''en'' ''hi'' None None None) =
       Inr (translate_failure (''HTTP Error: '' @ show_int 401 @ detail)
              (PStr ''Hello'') ''en'' ''hi'')"
    and "\<forall>body err. ?body = body \<and> map_of body ''error'' = Some (PDict err) \<longrightarrow>
           detail = '' - '' @ py_format unauthorized_world
                                (case map_of err ''message'' of Some m \<Rightarrow> m | None \<Rightarrow> PStr [])"
    by (auto simp: stub_response_def)
  then have "fst (translate_text unauthorized_world (PStr ''Hello'') ''en'' ''hi'' None None None) =
     Inr (translate_failure ''HTTP Error: 401 - Access denied'' (PStr ''Hello'') ''en'' ''hi'')"
    by (simp add: code)
  with first show ?thesis by simp
qed

subsection \<open>The list of languages\<close>

lemma languages_url_key:
  "languages_url (w\<lparr>environ := (environ w)(''AZURE_TRANSLATOR_KEY'' := k)\<rparr>) = languages_url w"
  by (simp add: languages_url_def getenv_default_def)

text \<open>
  Claim C9, as stated, fails for the statuses that are neither 2xx nor an error to
  \<open>raise_for_status\<close>: a response with status 300 whose body is an object is returned as a
  success.
\<close>

theorem get_supported_languages_redirect_counterexample:
  "get_supported_languages (status_world 300) =
     ([(''success'', PBool True), (''languages'', PDict [])],
      [Http_get
         \<lparr>get_url =
            ''https://api.cognitive.microsofttranslator.com/languages?api-version=3.0&scope=translation'',
          get_timeout = 30\<rparr>])"
  by code_simp

text \<open>
  Claim C9, amended. \<open>get_supported_languages\<close> makes exactly one request, a GET of the
  languages URL with nothing but the timeout, and its outcome does not depend on the
  translator key. If the request raises, or the status is in the range 400 to 599, the
  result is exactly \<open>success\<close> false, an \<open>error\<close> message and the empty \<open>languages\<close>. If the
  status is outside that range (so for every 2xx status) and the body is an object, the
  result is \<open>success\<close> true with the body's \<open>translation\<close> mapping (empty if there is none).
  The result is always of one of these two shapes: no exception leaves the function.
\<close>

theorem get_supported_languages_outcomes:
  "snd (get_supported_languages w) = [Http_get \<lparr>get_url = languages_url w, get_timeout = 30\<rparr>]
   \<and> get_supported_languages (w\<lparr>environ := (environ w)(''AZURE_TRANSLATOR_KEY'' := k)\<rparr>) =
       get_supported_languages w
   \<and> (\<forall>e. requests_get w \<lparr>get_url = languages_url w, get_timeout = 30\<rparr> = Inl e \<longrightarrow>
        fst (get_supported_languages w) =
          [(''success'', PBool False), (''error'', PStr (exc_str e)), (''languages'', PDict [])])
   \<and> (\<forall>r. requests_get w \<lparr>get_url = languages_url w, get_timeout = 30\<rparr> = Inr r
            \<and> 400 \<le> status_code r \<and> status_code r < 600 \<longrightarrow>
        (\<exists>msg. fst (get_supported_languages w) =
                 [(''success'', PBool False), (''error'', PStr msg), (''languages'', PDict [])]))
   \<and> (\<forall>r body. requests_get w \<lparr>get_url = languages_url w, get_timeout = 30\<rparr> = Inr r
            \<and> \<not> (400 \<le> status_code r \<and> status_code r < 600)
            \<and> resp_json r = Inr (PDict body) \<longrightarrow>
        fst (get_supported_languages w) =
          [(''success'', PBool True),
           (''languages'', case map_of body ''translation'' of Some v \<Rightarrow> v | None \<Rightarrow> PDict [])])
   \<and> ((\<exists>languages. fst (get_supported_languages w) =
                       [(''success'', PBool True), (''languages'', languages)])
        \<or> (\<exists>msg. fst (get_supported_languages w) =
                    [(''success'', PBool False), (''error'', PStr msg), (''languages'', PDict [])]))"
proof -
  let ?req = "\<lparr>get_url = languages_url w, get_timeout = 30\<rparr>"
  have sent: "snd (get_supported_languages w) = [Http_get ?req]"
    by (simp add: get_supported_languages_def)
  have key: "get_supported_languages (w\<lparr>environ := (environ w)(''AZURE_TRANSLATOR_KEY'' := k)\<rparr>) =
       get_supported_languages w"
    by (simp add: get_supported_languages_def languages_try_def languages_url_key)
  have down: "fst (get_supported_languages w) =
          [(''success'', PBool False), (''error'', PStr (exc_str e)), (''languages'', PDict [])]"
    if "requests_get w ?req = Inl e" for e
    using that by (simp add: get_supported_languages_def languages_try_def and_then_def)
  have refused: "\<exists>msg. fst (get_supported_languages w) =
                 [(''success'', PBool False), (''error'', PStr msg), (''languages'', PDict [])]"
    if "requests_get w ?req = Inr r \<and> 400 \<le> status_code r \<and> status_code r < 600" for r
    using that
    by (auto simp: get_supported_languages_def languages_try_def and_then_def raise_for_status_def)
  have listed: "fst (get_supported_languages w) =
          [(''success'', PBool True),
           (''languages'', case map_of body ''translation'' of Some v \<Rightarrow> v | None \<Rightarrow> PDict [])]"
    if "requests_get w ?req = Inr r \<and> \<not> (400 \<le> status_code r \<and> status_code r < 600)
          \<and> resp_json r = Inr (PDict body)" for r body
    using that
    by (auto simp: get_supported_languages_def languages_try_def and_then_def raise_for_status_def
          response_json_def)
  have shape: "(\<exists>languages. fst (get_supported_languages w) =
                       [(''success'', PBool True), (''languages'', languages)])
        \<or> (\<exists>msg. fst (get_supported_languages w) =
                    [(''success'', PBool False), (''error'', PStr msg), (''languages'', PDict [])])"
  proof (cases "languages_try w")
    case (Inl e)
    then show ?thesis by (simp add: get_supported_languages_def)
  next
    case (Inr d)
    then have "\<exists>languages. d = [(''success'', PBool True), (''languages'', languages)]"
      by (auto simp: languages_try_def and_then_def split: sum.splits option.splits)
    with Inr show ?thesis by (auto simp: get_supported_languages_def)
  qed
  from sent key down refused listed shape show ?thesis by blast
qed

text \<open>
  Without network, with the provider of the configured machine, and with a provider that
  answers 503.
\<close>

theorem get_supported_languages_outcomes_witness:
  "fst (get_supported_languages offline_world) =
     [(''success'', PBool False), (''error'', PStr ''connection refused''), (''languages'', PDict [])]
   \<and> fst (get_supported_languages stub_world) =
     [(''success'', PBool True),
      (''languages'', PDict [(''hi'', PDict [(''name'', PStr ''Hindi'')])])]
   \<and> (\<exists>msg. fst (get_supported_languages (status_world 503)) =
              [(''success'', PBool False), (''error'', PStr msg), (''languages'', PDict [])])"
proof -
  let ?body = "[(''translation'', PDict [(''hi'', PDict [(''name'', PStr ''Hindi'')])])]"
  have down: "requests_get offline_world r = Inl (mk_exc RequestException ''connection refused'')"
    for r
    by (simp add: offline_world_def)
  have up: "requests_get stub_world r = Inr (stub_response 200 (PDict ?body))" for r
    by (simp add: stub_world_def)
  have busy: "requests_get (status_world 503) r =
                Inr (stub_response 503 (PDict [(''translation'', PDict [])]))" for r
    by (simp add: status_world_def)
  have codes: "\<not> (400 \<le> status_code (stub_response 200 (PDict ?body))
                 \<and> status_code (stub_response 200 (PDict ?body)) < 600)"
    "resp_json (stub_response 200 (PDict ?body)) = Inr (PDict ?body)"
    "400 \<le> status_code (stub_response 503 (PDict [(''translation'', PDict [])]))
       \<and> status_code (stub_response 503 (PDict [(''translation'', PDict [])])) < 600"
    by (simp_all add: stub_response_def)
  from get_supported_languages_outcomes [of offline_world] down
  have one: "fst (get_supported_languages offline_world) =
     [(''success'', PBool False), (''error'', PStr ''connection refused''), (''languages'', PDict [])]"
    by (simp add: mk_exc_def)
  from get_supported_languages_outcomes [of stub_world] up codes(1,2)
  have two: "fst (get_supported_languages stub_world) =
     [(''success'', PBool True),
      (''languages'', PDict [(''hi'', PDict [(''name'', PStr ''Hindi'')])])]"
    by fastforce
  from get_supported_languages_outcomes [of "status_world 503"] busy codes(3)
  have three: "\<exists>msg. fst (get_supported_languages (status_world 503)) =
              [(''success'', PBool False), (''error'', PStr msg), (''languages'', PDict [])]"
    by blast
  from one two three show ?thesis by blast
qed

section \<open>Verified properties: openai_client.py\<close>

subsection \<open>Missing completion configuration\<close>

text \<open>
  Claim C4. When \<open>generate_ai_response\<close> has no API key (argument falsy, environment variable
  absent or empty) it returns a failure that names \<open>AZURE_OPENAI_API_KEY\<close>; when it has a key
  but no endpoint it returns a failure that names \<open>AZURE_OPENAI_ENDPOINT\<close>. In both cases the
  list of events is empty: no call was attempted.
\<close>

theorem generate_ai_response_missing_config:
  "(\<not> py_truthy api_key \<and> environ w ''AZURE_OPENAI_API_KEY'' \<in> {None, Some []} \<longrightarrow>
      generate_ai_response w prompt system_message temperature max_tokens
          api_key endpoint deployment_name =
        ([(''success'', PBool False),
          (''error'', PStr ''Missing AZURE_OPENAI_API_KEY. Please set it in .env file.''),
          (''prompt'', PStr prompt),
          (''response'', PNone),
          (''usage'', PNone)], []))
   \<and> ((py_truthy api_key \<or> environ w ''AZURE_OPENAI_API_KEY'' \<notin> {None, Some []})
        \<and> \<not> py_truthy endpoint \<and> environ w ''AZURE_OPENAI_ENDPOINT'' \<in> {None, Some []} \<longrightarrow>
      generate_ai_response w prompt system_message temperature max_tokens
          api_key endpoint deployment_name =
        ([(''success'', PBool False),
          (''error'', PStr ''Missing AZURE_OPENAI_ENDPOINT. Please set it in .env file.''),
          (''prompt'', PStr prompt),
          (''response'', PNone),
          (''usage'', PNone)], []))"
  by (auto simp: generate_ai_response_def ai_failure_def py_or_def getenv_def Let_def
           split: option.splits)

text \<open>
  On the machine with nothing configured, without and with a key argument.
\<close>

theorem generate_ai_response_missing_config_witness:
  "generate_ai_response offline_world ''Hi'' None default_temperature (PInt 1000) PNone PNone PNone =
        ([(''success'', PBool False),
          (''error'', PStr ''Missing AZURE_OPENAI_API_KEY. Please set it in .env file.''),
          (''prompt'', PStr ''Hi''),
          (''response'', PNone),
          (''usage'', PNone)], [])
   \<and> generate_ai_response offline_world ''Hi'' None default_temperature (PInt 1000)
         (PStr ''key'') PNone PNone =
        ([(''success'', PBool False),
          (''error'', PStr ''Missing AZURE_OPENAI_ENDPOINT. Please set it in .env file.''),
          (''prompt'', PStr ''Hi''),
          (''response'', PNone),
          (''usage'', PNone)], [])"
proof -
  have env: "environ offline_world ''AZURE_OPENAI_API_KEY'' = None"
    "environ offline_world ''AZURE_OPENAI_ENDPOINT'' = None"
    by (simp_all add: offline_world_def)
  show ?thesis
    using env
      generate_ai_response_missing_config [of PNone offline_world "''Hi''" None default_temperature "PInt 1000" PNone PNone]
      generate_ai_response_missing_config [of "PStr ''key''" offline_world "''Hi''" None default_temperature "PInt 1000" PNone PNone]
    by simp
qed

subsection \<open>Empty system message\<close>

text \<open>
  Claim C10. In \<open>generate_ai_response\<close> the empty string as system message behaves exactly as
  no system message: the result and the events are the same, and every completion request
  that is sent carries the default generic-assistant system message before the user prompt.
\<close>

theorem empty_system_message_is_default:
  "generate_ai_response w prompt (Some []) temperature max_tokens api_key endpoint deployment_name =
     generate_ai_response w prompt None temperature max_tokens api_key endpoint deployment_name
   \<and> (\<forall>client req.
          Chat_create client req \<in>
            set (snd (generate_ai_response w prompt (Some []) temperature max_tokens
                        api_key endpoint deployment_name)) \<longrightarrow>
          chat_messages req =
            [[(''role'', ''system''),
              (''content'',
               ''You are a helpful AI assistant. Provide clear, concise, and accurate responses.'')],
             [(''role'', ''user''), (''content'', prompt)]])"
proof -
  have msgs: "build_messages prompt (Some []) = build_messages prompt None"
    by (simp add: build_messages_def)
  have req: "ai_request prompt (Some []) temperature max_tokens d =
             ai_request prompt None temperature max_tokens d" for d
    by (simp add: ai_request_def msgs)
  have same: "generate_ai_response w prompt (Some []) temperature max_tokens api_key endpoint deployment_name =
     generate_ai_response w prompt None temperature max_tokens api_key endpoint deployment_name"
    unfolding generate_ai_response_def req by (rule refl)
  have sent: "chat_messages r =
            [[(''role'', ''system''),
              (''content'',
               ''You are a helpful AI assistant. Provide clear, concise, and accurate responses.'')],
             [(''role'', ''user''), (''content'', prompt)]]"
    if "Chat_create client r \<in>
            set (snd (generate_ai_response w prompt (Some []) temperature max_tokens
                        api_key endpoint deployment_name))" for client r
    using that
    by (auto simp: generate_ai_response_def Let_def ai_request_def build_messages_def
             split: if_splits sum.splits)
  from same sent show ?thesis by blast
qed

text \<open>
  On the configured machine the request is sent, and carries the default message.
\<close>

theorem empty_system_message_is_default_witness:
  "snd (generate_ai_response stub_world ''Hi'' (Some []) default_temperature (PInt 1000) PNone PNone PNone) =
     [Chat_create
        \<lparr>cfg_api_key = PStr ''openai-key'',
         cfg_api_version = PStr ''2024-02-15-preview'',
         cfg_azure_endpoint = PStr ''https://example.openai.azure.com/''\<rparr>
        \<lparr>chat_model = PStr ''gpt-4o-mini'',
         chat_messages =
           [[(''role'', ''system''),
             (''content'',
              ''You are a helpful AI assistant. Provide clear, concise, and accurate responses.'')],
            [(''role'', ''user''), (''content'', ''Hi'')]],
         chat_temperature = default_temperature,
         chat_max_tokens = PInt 1000\<rparr>]"
proof -
  let ?cfg = "\<lparr>cfg_api_key = PStr ''openai-key'',
         cfg_api_version = PStr ''2024-02-15-preview'',
         cfg_azure_endpoint = PStr ''https://example.openai.azure.com/''\<rparr>"
  let ?req = "ai_request ''Hi'' (Some []) default_temperature (PInt 1000) (PStr ''gpt-4o-mini'')"
  have run: "snd (generate_ai_response stub_world ''Hi'' (Some []) default_temperature (PInt 1000)
                PNone PNone PNone) = [Chat_create ?cfg ?req]"
    by (simp add: generate_ai_response_def stub_world_def stub_environ_def py_or_def getenv_def
          getenv_default_def get_openai_client_def Let_def)
  then have "Chat_create ?cfg ?req \<in> set (snd (generate_ai_response stub_world ''Hi'' (Some [])
                default_temperature (PInt 1000) PNone PNone PNone))"
    by simp
  with empty_system_message_is_default [of stub_world "''Hi''" default_temperature "PInt 1000" PNone PNone PNone]
  have "chat_messages ?req = [[(''role'', ''system''),
             (''content'',
              ''You are a helpful AI assistant. Provide clear, concise, and accurate responses.'')],
            [(''role'', ''user''), (''content'', ''Hi'')]]"
    by blast
  with run show ?thesis
    by (simp add: ai_request_def)
qed

subsection \<open>The summarize helper\<close>

lemma bind_keywords_ok:
  "set (map fst kwargs) \<subseteq> set ai_keywords \<Longrightarrow> bind_keywords kwargs = None"
  by (induction kwargs) (auto simp: ai_keywords_def)

lemma call_keywords_ok:
  "set (map fst kwargs) \<subseteq> set ai_keywords \<Longrightarrow> call_keywords kwargs = None"
  using bind_keywords_ok [of kwargs] by (auto simp: call_keywords_def ai_keywords_def)

lemma summarize_prompt_instruction:
  "summarize_prompt text style = style_instruction style @ ''\<newline>\<newline>'' @ text"
  by (simp add: summarize_prompt_def style_prompts_def concise_prompt_def style_instruction_def)

text \<open>
  Claim C7. For every text and style, and keyword arguments among those that
  \<open>generate_ai_response\<close> takes besides the prompt and the system message, \<open>summarize_text\<close> is
  \<open>generate_ai_response\<close> on the prompt made of the style's instruction line, a blank line
  and the text, with the fixed expert-summarizer system message: the same result and the
  same events, so nothing can fail that does not fail there. The instruction line is the
  concise one for the style \<open>concise\<close> and for every style that is not one of the three.
\<close>

theorem summarize_text_delegates:
  assumes "set (map fst kwargs) \<subseteq> set ai_keywords"
  shows "summarize_text w text style kwargs =
           (Inr (fst (generate_ai_response w
                        (style_instruction style @ ''\<newline>\<newline>'' @ text)
                        (Some ''You are an expert summarizer. Create clear and accurate summaries.'')
                        (keyword kwargs ''temperature'' default_temperature)
                        (keyword kwargs ''max_tokens'' (PInt 1000))
                        (keyword kwargs ''api_key'' PNone)
                        (keyword kwargs ''endpoint'' PNone)
                        (keyword kwargs ''deployment_name'' PNone))),
            snd (generate_ai_response w
                   (style_instruction style @ ''\<newline>\<newline>'' @ text)
                   (Some ''You are an expert summarizer. Create clear and accurate summaries.'')
                   (keyword kwargs ''temperature'' default_temperature)
                   (keyword kwargs ''max_tokens'' (PInt 1000))
                   (keyword kwargs ''api_key'' PNone)
                   (keyword kwargs ''endpoint'' PNone)
                   (keyword kwargs ''deployment_name'' PNone)))
         \<and> style_instruction ''concise'' =
             ''Provide a brief, concise summary of the following text in 2-3 sentences:''
         \<and> (style \<notin> {''concise'', ''detailed'', ''bullet_points''} \<longrightarrow>
              style_instruction style = style_instruction ''concise'')"
proof -
  have "call_keywords kwargs = None"
    using assms by (rule call_keywords_ok)
  then have "summarize_text w text style kwargs =
           (Inr (fst (generate_ai_response w
                        (style_instruction style @ ''\<newline>\<newline>'' @ text)
                        (Some ''You are an expert summarizer. Create clear and accurate summaries.'')
                        (keyword kwargs ''temperature'' default_temperature)
                        (keyword kwargs ''max_tokens'' (PInt 1000))
                        (keyword kwargs ''api_key'' PNone)
                        (keyword kwargs ''endpoint'' PNone)
                        (keyword kwargs ''deployment_name'' PNone))),
            snd (generate_ai_response w
                   (style_instruction style @ ''\<newline>\<newline>'' @ text)
                   (Some ''You are an expert summarizer. Create clear and accurate summaries.'')
                   (keyword kwargs ''temperature'' default_temperature)
                   (keyword kwargs ''max_tokens'' (PInt 1000))
                   (keyword kwargs ''api_key'' PNone)
                   (keyword kwargs ''endpoint'' PNone)
                   (keyword kwargs ''deployment_name'' PNone)))"
    by (simp add: summarize_text_def summarize_prompt_instruction Let_def split: prod.splits)
  moreover have "style_instruction ''concise'' =
             ''Provide a brief, concise summary of the following text in 2-3 sentences:''"
    by (simp add: style_instruction_def)
  moreover have "style \<notin> {''concise'', ''detailed'', ''bullet_points''} \<longrightarrow>
              style_instruction style = style_instruction ''concise''"
    by (simp add: style_instruction_def)
  ultimately show ?thesis by blast
qed

text \<open>
  With an unknown style and an empty key passed as keyword, on the machine with nothing
  configured.
\<close>

theorem summarize_text_delegates_witness:
  "summarize_text offline_world ''Some text.'' ''haiku'' [(''api_key'', PStr [])] =
     (Inr [(''success'', PBool False),
           (''error'', PStr ''Missing AZURE_OPENAI_API_KEY. Please set it in .env file.''),
           (''prompt'',
            PStr ''Provide a brief, concise summary of the following text in 2-3 sentences:\<newline>\<newline>Some text.''),
           (''response'', PNone),
           (''usage'', PNone)], [])"
proof -
  have keys: "set (map fst [(''api_key'', PStr [])]) \<subseteq> set ai_keywords"
    by (simp add: ai_keywords_def)
  have run: "generate_ai_response offline_world
               (''Provide a brief, concise summary of the following text in 2-3 sentences:''
                  @ ''\<newline>\<newline>'' @ ''Some text.'')
               (Some ''You are an expert summarizer. Create clear and accurate summaries.'')
               default_temperature (PInt 1000) (PStr []) PNone PNone =
             ([(''success'', PBool False),
               (''error'', PStr ''Missing AZURE_OPENAI_API_KEY. Please set it in .env file.''),
               (''prompt'',
                PStr ''Provide a brief, concise summary of the following text in 2-3 sentences:\<newline>\<newline>Some text.''),
               (''response'', PNone),
               (''usage'', PNone)], [])"
    by (simp add: generate_ai_response_def offline_world_def py_or_def getenv_def ai_failure_def)
  have haiku: "''haiku'' \<notin> {''concise'', ''detailed'', ''bullet_points''}"
    by simp
  from summarize_text_delegates [OF keys, of offline_world "''Some text.''" "''haiku''"] haiku run
  show ?thesis
    by (simp add: keyword_def)
qed

section \<open>Verified properties: document_processor.py\<close>

subsection \<open>Routing of \<open>extract_text\<close>\<close>

text \<open>
  Claim C5, as stated, fails: a resolved type outside pdf, docx and txt does not always give
  the failure result. The routing table has a fourth entry, \<open>text\<close>, which goes to the plain
  text reader: the existing file \<open>notes.text\<close> is read and returned.
\<close>

theorem extract_text_text_alias_counterexample:
  "path_exists stub_world ''notes.text''
   \<and> resolve_type stub_world ''notes.text'' None = ''text''
   \<and> ''text'' \<notin> {''pdf'', ''docx'', ''txt''}
   \<and> extract_text stub_world ''notes.text'' None =
       ([(''success'', PBool True),
         (''text'', PStr ''plain text''),
         (''file_type'', PStr ''txt''),
         (''error'', PNone)], [Read_txt ''notes.text''])"
  by code_simp

text \<open>
  Claim C5, amended. The type that \<open>extract_text\<close> routes on is the caller's when that is a
  non-empty string, and else the extension that \<open>os.path.splitext\<close> gives for the path,
  lower-cased by \<open>str.lower\<close> and without its leading dots, on whatever platform. For a path
  that does not exist the result is the \<open>File not found\<close> failure with no event: nothing was
  opened or parsed. For an existing path the type \<open>pdf\<close> goes to the PDF reader, \<open>docx\<close> to the
  DOCX reader, \<open>txt\<close> and \<open>text\<close> to the plain text reader, and every other type gives the
  failure whose message names the type and lists \<open>pdf, docx, txt\<close>, with no event. The result
  is a value in every case: neither \<open>extract_text\<close> nor a reader has a raising outcome.
\<close>

theorem extract_text_routing:
  "(file_type \<in> {None, Some []} \<longrightarrow>
      resolve_type w file_path file_type =
        py_lstrip CHR ''.'' (str_lower w (snd (os_path_splitext w file_path))))
   \<and> (\<forall>t. file_type = Some t \<and> t \<noteq> [] \<longrightarrow> resolve_type w file_path file_type = t)
   \<and> (\<not> path_exists w file_path \<longrightarrow>
        extract_text w file_path file_type =
          ([(''success'', PBool False),
            (''text'', PNone),
            (''error'', PStr (''File not found: '' @ file_path))], []))
   \<and> (path_exists w file_path \<and> resolve_type w file_path file_type = ''pdf'' \<longrightarrow>
        extract_text w file_path file_type = extract_text_from_pdf w file_path)
   \<and> (path_exists w file_path \<and> resolve_type w file_path file_type = ''docx'' \<longrightarrow>
        extract_text w file_path file_type = extract_text_from_docx w file_path)
   \<and> (path_exists w file_path \<and> resolve_type w file_path file_type \<in> {''txt'', ''text''} \<longrightarrow>
        extract_text w file_path file_type = extract_text_from_txt w file_path)
   \<and> (path_exists w file_path
        \<and> resolve_type w file_path file_type \<notin> {''pdf'', ''docx'', ''txt'', ''text''} \<longrightarrow>
        extract_text w file_path file_type =
          ([(''success'', PBool False),
            (''text'', PNone),
            (''error'',
             PStr (''Unsupported file type: '' @ resolve_type w file_path file_type
                     @ ''. Supported: pdf, docx, txt''))], []))"
proof -
  have hint: "resolve_type w file_path file_type =
        py_lstrip CHR ''.'' (str_lower w (snd (os_path_splitext w file_path)))"
    if "file_type \<in> {None, Some []}"
    using that by (auto simp: resolve_type_def extension_type_def)
  have given: "resolve_type w file_path file_type = t" if "file_type = Some t \<and> t \<noteq> []" for t
    using that by (simp add: resolve_type_def)
  have missing: "extract_text w file_path file_type =
          ([(''success'', PBool False),
            (''text'', PNone),
            (''error'', PStr (''File not found: '' @ file_path))], [])"
    if "\<not> path_exists w file_path"
    using that by (simp add: extract_text_def extract_failure_def)
  have pdf: "extract_text w file_path file_type = extract_text_from_pdf w file_path"
    if "path_exists w file_path \<and> resolve_type w file_path file_type = ''pdf''"
    using that by (simp add: extract_text_def extractors_def Let_def)
  have docx: "extract_text w file_path file_type = extract_text_from_docx w file_path"
    if "path_exists w file_path \<and> resolve_type w file_path file_type = ''docx''"
    using that by (simp add: extract_text_def extractors_def Let_def)
  have plain: "extract_text w file_path file_type = extract_text_from_txt w file_path"
    if "path_exists w file_path \<and> resolve_type w file_path file_type \<in> {''txt'', ''text''}"
    using that by (auto simp: extract_text_def extractors_def Let_def)
  have other: "extract_text w file_path file_type =
          ([(''success'', PBool False),
            (''text'', PNone),
            (''error'',
             PStr (''Unsupported file type: '' @ resolve_type w file_path file_type
                     @ ''. Supported: pdf, docx, txt''))], [])"
    if "path_exists w file_path
        \<and> resolve_type w file_path file_type \<notin> {''pdf'', ''docx'', ''txt'', ''text''}"
    using that by (simp add: extract_text_def extract_failure_def extractors_def Let_def)
  from hint given missing pdf docx plain other show ?thesis by blast
qed

text \<open>
  A path that does not exist, an extension that is not routed, a type hint that is not
  routed, and the three readers, each reached by extension or by hint.
\<close>

theorem extract_text_routing_witness:
  "extract_text stub_world ''missing.pdf'' None =
     ([(''success'', PBool False),
       (''text'', PNone),
       (''error'', PStr ''File not found: missing.pdf'')], [])
   \<and> extract_text stub_world ''setup.exe'' None =
     ([(''success'', PBool False),
       (''text'', PNone),
       (''error'', PStr ''Unsupported file type: exe. Supported: pdf, docx, txt'')], [])
   \<and> extract_text stub_world ''report.pdf'' (Some ''csv'') =
     ([(''success'', PBool False),
       (''text'', PNone),
       (''error'', PStr ''Unsupported file type: csv. Supported: pdf, docx, txt'')], [])
   \<and> extract_text stub_world ''report.pdf'' None = extract_text_from_pdf stub_world ''report.pdf''
   \<and> extract_text stub_world ''setup.exe'' (Some ''docx'') =
       extract_text_from_docx stub_world ''setup.exe''
   \<and> extract_text stub_world ''notes.text'' None = extract_text_from_txt stub_world ''notes.text''
   \<and> extract_text stub_world ''notes.text'' (Some ''txt'') =
       extract_text_from_txt stub_world ''notes.text''"
proof -
  have missing: "\<not> path_exists stub_world ''missing.pdf''"
    by (simp add: stub_world_def)
  have there: "path_exists stub_world ''setup.exe''" "path_exists stub_world ''report.pdf''"
    "path_exists stub_world ''notes.text''"
    by (simp_all add: stub_world_def)
  have by_extension:
    "py_lstrip CHR ''.'' (str_lower stub_world (snd (os_path_splitext stub_world ''setup.exe'')))
       = ''exe''"
    "py_lstrip CHR ''.'' (str_lower stub_world (snd (os_path_splitext stub_world ''report.pdf'')))
       = ''pdf''"
    "py_lstrip CHR ''.'' (str_lower stub_world (snd (os_path_splitext stub_world ''notes.text'')))
       = ''text''"
    by code_simp+
  have unsupported: "''exe'' \<notin> {''pdf'', ''docx'', ''txt'', ''text''}"
    "''csv'' \<notin> {''pdf'', ''docx'', ''txt'', ''text''}"
    by simp_all
  from extract_text_routing [of None stub_world "''missing.pdf''"] missing
  have one: "extract_text stub_world ''missing.pdf'' None =
     ([(''success'', PBool False),
       (''text'', PNone),
       (''error'', PStr ''File not found: missing.pdf'')], [])"
    by simp
  from extract_text_routing [of None stub_world "''setup.exe''"] there by_extension unsupported
  have two: "extract_text stub_world ''setup.exe'' None =
     ([(''success'', PBool False),
       (''text'', PNone),
       (''error'', PStr ''Unsupported file type: exe. Supported: pdf, docx, txt'')], [])"
    by simp
  from extract_text_routing [of "Some ''csv''" stub_world "''report.pdf''"] there unsupported
  have three: "extract_text stub_world ''report.pdf'' (Some ''csv'') =
     ([(''success'', PBool False),
       (''text'', PNone),
       (''error'', PStr ''Unsupported file type: csv. Supported: pdf, docx, txt'')], [])"
    by simp
  from extract_text_routing [of None stub_world "''report.pdf''"] there by_extension
  have four: "extract_text stub_world ''report.pdf'' None =
                extract_text_from_pdf stub_world ''report.pdf''"
    by simp
  from extract_text_routing [of "Some ''docx''" stub_world "''setup.exe''"] there
  have five: "extract_text stub_world ''setup.exe'' (Some ''docx'') =
                extract_text_from_docx stub_world ''setup.exe''"
    by simp
  from extract_text_routing [of None stub_world "''notes.text''"] there by_extension
  have six: "extract_text stub_world ''notes.text'' None =
               extract_text_from_txt stub_world ''notes.text''"
    by simp
  from extract_text_routing [of "Some ''txt''" stub_world "''notes.text''"] there
  have seven: "extract_text stub_world ''notes.text'' (Some ''txt'') =
                 extract_text_from_txt stub_world ''notes.text''"
    by simp
  from one two three four five six seven show ?thesis by blast
qed

subsection \<open>Text of a PDF\<close>

lemma zip_upt_Cons:
  "zip [n ..< n + Suc k] (x # xs) = (n, x) # zip [Suc n ..< Suc n + k] xs"
  by (simp add: upt_conv_Cons)

lemma labelled_pages_Nil: "labelled_pages n [] = []"
  by (simp add: labelled_pages_def)

lemma labelled_pages_Cons:
  "labelled_pages n (t # ts) =
     (case t of
        None \<Rightarrow> []
      | Some s \<Rightarrow> if s \<noteq> [] then [''--- Page '' @ show_nat n @ '' ---\<newline>'' @ s] else [])
     @ labelled_pages (Suc n) ts"
  unfolding labelled_pages_def length_Cons add_Suc_right [symmetric] zip_upt_Cons
  by (simp split: option.splits)

lemma pdf_pages_labelled:
  "pdf_pages n (map Inr texts) acc = Inr (acc @ labelled_pages n texts)"
proof (induction texts arbitrary: n acc)
  case Nil
  then show ?case by (simp add: labelled_pages_Nil)
next
  case (Cons t ts)
  then show ?case
    by (cases t) (simp_all add: labelled_pages_Cons)
qed

lemma length_labelled_pages:
  "length (labelled_pages n texts) = length (filter has_text texts)"
  by (induction texts arbitrary: n)
     (simp_all add: labelled_pages_Nil labelled_pages_Cons has_text_def split: option.splits)

lemma labelled_pages_all:
  "list_all has_text texts \<Longrightarrow> i < length texts \<Longrightarrow>
     \<exists>t. texts ! i = Some t
       \<and> labelled_pages n texts ! i = ''--- Page '' @ show_nat (n + i) @ '' ---\<newline>'' @ t"
proof (induction texts arbitrary: n i)
  case Nil
  then show ?case by simp
next
  case (Cons x xs)
  from Cons.prems obtain s where x: "x = Some s" "s \<noteq> []"
    by (auto simp: has_text_def split: option.splits)
  show ?case
  proof (cases i)
    case 0
    with x show ?thesis by (simp add: labelled_pages_Cons)
  next
    case (Suc j)
    with Cons.prems have "list_all has_text xs" "j < length xs" by simp_all
    from Cons.IH [OF this, of "Suc n"] Suc x show ?thesis
      by (simp add: labelled_pages_Cons)
  qed
qed

text \<open>
  Claim C6, as stated, fails in its page count: \<open>page_count\<close> is the number of pages that
  gave text, not the number of pages. The PDF of three pages whose second page is empty is
  returned with \<open>page_count\<close> 2 (and the labels of pages 1 and 3).
\<close>

theorem extract_text_from_pdf_page_count_counterexample:
  "pdfplumber_open stub_world ''report.pdf'' = Inr (map Inr stub_pages)
   \<and> length stub_pages = 3
   \<and> extract_text_from_pdf stub_world ''report.pdf'' =
       ([(''success'', PBool True),
         (''text'',
          PStr ''--- Page 1 ---\<newline>Hello\<newline>\<newline>--- Page 3 ---\<newline>World''),
         (''page_count'', PInt 2),
         (''file_type'', PStr ''pdf''),
         (''error'', PNone)], [Open_pdf ''report.pdf''])"
  by code_simp

text \<open>
  Claim C6, amended. For a PDF that opens and whose pages all extract without raising,
  \<open>extract_text_from_pdf\<close> succeeds with the text of the pages that have text, each under
  its label \<open>--- Page N ---\<close> (\<open>N\<close> the number of the page in the document, counted from 1),
  joined by a blank line; pages without text contribute nothing; \<open>page_count\<close> is the number
  of pages that have text. When all \<open>N\<close> pages have text, \<open>page_count\<close> is \<open>N\<close> and there are \<open>N\<close>
  labelled entries, the \<open>i\<close>-th labelled \<open>--- Page i ---\<close>.
\<close>

theorem extract_text_from_pdf_labels:
  assumes "pdfplumber_open w file_path = Inr (map Inr texts)"
  shows "extract_text_from_pdf w file_path =
           ([(''success'', PBool True),
             (''text'', PStr (py_join ''\<newline>\<newline>'' (labelled_pages 1 texts))),
             (''page_count'', PInt (int (length (filter has_text texts)))),
             (''file_type'', PStr ''pdf''),
             (''error'', PNone)], [Open_pdf file_path])
         \<and> (list_all has_text texts \<longrightarrow>
              length (filter has_text texts) = length texts
              \<and> length (labelled_pages 1 texts) = length texts
              \<and> (\<forall>i < length texts.
                    \<exists>t. texts ! i = Some t
                      \<and> labelled_pages 1 texts ! i =
                          ''--- Page '' @ show_nat (Suc i) @ '' ---\<newline>'' @ t))"
proof -
  have run: "extract_text_from_pdf w file_path =
           ([(''success'', PBool True),
             (''text'', PStr (py_join ''\<newline>\<newline>'' (labelled_pages 1 texts))),
             (''page_count'', PInt (int (length (filter has_text texts)))),
             (''file_type'', PStr ''pdf''),
             (''error'', PNone)], [Open_pdf file_path])"
    using assms
    by (simp add: extract_text_from_pdf_def and_then_def pdf_pages_labelled length_labelled_pages)
  have all: "length (filter has_text texts) = length texts
              \<and> length (labelled_pages 1 texts) = length texts
              \<and> (\<forall>i < length texts.
                    \<exists>t. texts ! i = Some t
                      \<and> labelled_pages 1 texts ! i =
                          ''--- Page '' @ show_nat (Suc i) @ '' ---\<newline>'' @ t)"
    if "list_all has_text texts"
  proof -
    from that have "filter has_text texts = texts"
      by (simp add: list_all_iff)
    then have "length (filter has_text texts) = length texts" by simp
    moreover from this have "length (labelled_pages 1 texts) = length texts"
      by (simp add: length_labelled_pages)
    moreover have "\<forall>i < length texts.
                    \<exists>t. texts ! i = Some t
                      \<and> labelled_pages 1 texts ! i =
                          ''--- Page '' @ show_nat (Suc i) @ '' ---\<newline>'' @ t"
      using labelled_pages_all [OF that, of _ 1] by simp
    ultimately show ?thesis by blast
  qed
  from run all show ?thesis by blast
qed

text \<open>
  On the PDF of three pages of the configured machine.
\<close>

theorem extract_text_from_pdf_labels_witness:
  "extract_text_from_pdf stub_world ''report.pdf'' =
     ([(''success'', PBool True),
       (''text'',
        PStr ''--- Page 1 ---\<newline>Hello\<newline>\<newline>--- Page 3 ---\<newline>World''),
       (''page_count'', PInt 2),
       (''file_type'', PStr ''pdf''),
       (''error'', PNone)], [Open_pdf ''report.pdf''])"
proof -
  have opened: "pdfplumber_open stub_world ''report.pdf'' = Inr (map Inr stub_pages)"
    by (simp add: stub_world_def)
  have joined: "py_join ''\<newline>\<newline>'' (labelled_pages 1 stub_pages) =
              ''--- Page 1 ---\<newline>Hello\<newline>\<newline>--- Page 3 ---\<newline>World''"
    by code_simp
  have count: "int (length (filter has_text stub_pages)) = 2"
    by code_simp
  from extract_text_from_pdf_labels [OF opened] joined count show ?thesis
    by simp
qed

section \<open>Verified properties: main.py\<close>

lemma seq_raised: "seq (Inl e, evs) f = (Inl e, evs)"
  by (simp add: seq_def)

lemma seq_returned: "seq (Inr v, evs) f = (fst (f v), evs @ snd (f v))"
  by (simp add: seq_def split: prod.splits)

lemma after_translate_quiet:
  "snd (after_translate w result stages input_text target_language summary translation_result) = []"
  by (auto simp: after_translate_def Let_def seq_def pure_step_def split: sum.splits)

text \<open>What the pipeline does once the summarize stage has returned a value.\<close>

lemma pipeline_after_summary:
  assumes "summarize input_text summary_style = (Inr summary_result, evs1)"
    and "py_getitem summary_result (KStr ''success'') = Inr ok"
  shows "\<not> py_truthy ok \<Longrightarrow> py_getitem summary_result (KStr ''error'') = Inr err \<Longrightarrow>
           process_and_translate_with w summarize translate input_text target_language
               summary_style =
             (Inr (PDict [(''input'', PStr input_text),
                          (''target_language'', PStr target_language),
                          (''stages'', PDict [(''openai_summary'', summary_result)]),
                          (''success'', PBool False),
                          (''error'', PStr (''OpenAI stage failed: '' @ py_format w err))]),
              evs1)"
    and "\<not> py_truthy ok \<Longrightarrow>
           snd (process_and_translate_with w summarize translate input_text target_language
                  summary_style) = evs1"
    and "py_truthy ok \<Longrightarrow>
           snd (process_and_translate_with w summarize translate input_text target_language
                  summary_style) = evs1
           \<or> (\<exists>summary. py_getitem summary_result (KStr ''response'') = Inr summary
                 \<and> snd (process_and_translate_with w summarize translate input_text
                           target_language summary_style) =
                     evs1 @ snd (translate summary ''en'' target_language))"
proof -
  show "process_and_translate_with w summarize translate input_text target_language
               summary_style =
             (Inr (PDict [(''input'', PStr input_text),
                          (''target_language'', PStr target_language),
                          (''stages'', PDict [(''openai_summary'', summary_result)]),
                          (''success'', PBool False),
                          (''error'', PStr (''OpenAI stage failed: '' @ py_format w err))]),
              evs1)"
    if "\<not> py_truthy ok" "py_getitem summary_result (KStr ''error'') = Inr err"
    using that assms
    by (simp add: process_and_translate_with_def Let_def seq_returned seq_raised stage_failed_def pure_step_def)
  show "snd (process_and_translate_with w summarize translate input_text target_language
                  summary_style) = evs1"
    if "\<not> py_truthy ok"
    using that assms
    by (cases "py_getitem summary_result (KStr ''error'')")
       (simp_all add: process_and_translate_with_def Let_def seq_returned seq_raised pure_step_def)
  show "snd (process_and_translate_with w summarize translate input_text target_language
                  summary_style) = evs1
           \<or> (\<exists>summary. py_getitem summary_result (KStr ''response'') = Inr summary
                 \<and> snd (process_and_translate_with w summarize translate input_text
                           target_language summary_style) =
                     evs1 @ snd (translate summary ''en'' target_language))"
    if "py_truthy ok"
  proof (cases "py_getitem summary_result (KStr ''response'')")
    case (Inl e)
    with that assms show ?thesis
      by (simp add: process_and_translate_with_def Let_def seq_returned seq_raised pure_step_def)
  next
    case (Inr summary)
    show ?thesis
    proof (cases "py_preview summary")
      case (Inl e)
      with Inr that assms show ?thesis
        by (simp add: process_and_translate_with_def Let_def seq_returned seq_raised pure_step_def)
    next
      case preview: (Inr u)
      show ?thesis
      proof (cases "and_then (py_getitem summary_result (KStr ''usage''))
                      (\<lambda>u. py_getitem u (KStr ''total_tokens''))")
        case (Inl e)
        with preview Inr that assms show ?thesis
          by (simp add: process_and_translate_with_def Let_def seq_returned seq_raised pure_step_def)
      next
        case tokens: (Inr t)
        obtain r2 evs2 where tr: "translate summary ''en'' target_language = (r2, evs2)"
          by (cases "translate summary ''en'' target_language")
        have "snd (process_and_translate_with w summarize translate input_text
                           target_language summary_style) = evs1 @ evs2"
          using tokens preview Inr that assms tr
          by (cases r2)
             (simp_all add: process_and_translate_with_def Let_def seq_returned seq_raised pure_step_def after_translate_quiet)
        with Inr tr show ?thesis by simp
      qed
    qed
  qed
qed


lemma snd_recording:
  "snd (recording translate text source_lang target_lang) =
     Translate_called text source_lang target_lang # snd (translate text source_lang target_lang)"
  by (simp add: recording_def split: prod.splits)

lemma pipeline_summarize_raised:
  assumes "summarize input_text summary_style = (Inl e, evs1)"
  shows "process_and_translate_with w summarize translate input_text target_language
           summary_style = (Inl e, evs1)"
  using assms by (simp add: process_and_translate_with_def Let_def seq_raised)

lemma pipeline_no_success_key:
  assumes "summarize input_text summary_style = (Inr summary_result, evs1)"
    and "py_getitem summary_result (KStr ''success'') = Inl e"
  shows "process_and_translate_with w summarize translate input_text target_language
           summary_style = (Inl e, evs1)"
  using assms
  by (simp add: process_and_translate_with_def Let_def seq_returned seq_raised pure_step_def)

lemma generate_ai_response_failed:
  assumes "generate_ai_response w prompt system_message temperature max_tokens
             api_key endpoint deployment_name = (d, evs)"
    and "map_of d ''success'' = Some (PBool False)"
  shows "\<exists>msg. d = ai_failure msg prompt"
  using assms
  by (auto simp: generate_ai_response_def Let_def ai_unwrap_def and_then_def
           split: if_splits sum.splits option.splits)

lemma generate_ai_response_events:
  "Http_post req \<notin> set (snd (generate_ai_response w prompt system_message temperature
                                max_tokens api_key endpoint deployment_name))"
  by (auto simp: generate_ai_response_def Let_def split: if_splits sum.splits)

lemma summarize_text_failed:
  assumes "summarize_text w text style [] = (Inr d, evs)"
    and "map_of d ''success'' = Some (PBool False)"
  shows "(\<exists>msg. d = ai_failure msg (summarize_prompt text style)) \<and> Http_post req \<notin> set evs"
proof -
  let ?run = "generate_ai_response w (summarize_prompt text style)
                (Some ''You are an expert summarizer. Create clear and accurate summaries.'')
                default_temperature (PInt 1000) PNone PNone PNone"
  from assms(1) have run: "?run = (d, evs)"
    by (simp add: summarize_text_def call_keywords_def keyword_def Let_def split: prod.splits)
  from generate_ai_response_failed [OF run assms(2)] generate_ai_response_events [of req w]
  show ?thesis
    by (metis run snd_conv)
qed

text \<open>
  Claim C2. Run the pipeline with a double around the translate stage that records each
  call. If the summarize stage returns a result whose \<open>success\<close> is falsy, the events are
  those of the summarize stage alone, so the translate stage was not called, and the
  pipeline returns the envelope with \<open>success\<close> false and the error
  \<open>OpenAI stage failed:\<close> followed by the stage's error. Whatever the summarize stage does,
  the events after its own are either none or one call of the translate stage, on the
  summarize result's \<open>response\<close>, from \<open>en\<close>, to the caller's target language. For the
  pipeline on the real stages: when \<open>summarize_text\<close> returns a failure, the pipeline returns
  that envelope with the events of \<open>summarize_text\<close> only, none of them a request to the
  translator.
\<close>

theorem pipeline_short_circuit:
  "(\<forall>summary_result evs1 ok.
       summarize input_text summary_style = (Inr summary_result, evs1)
       \<and> py_getitem summary_result (KStr ''success'') = Inr ok \<and> \<not> py_truthy ok \<longrightarrow>
       snd (process_and_translate_with w summarize (recording translate) input_text
              target_language summary_style) = evs1
       \<and> (\<forall>err. py_getitem summary_result (KStr ''error'') = Inr err \<longrightarrow>
              fst (process_and_translate_with w summarize (recording translate) input_text
                     target_language summary_style) =
                Inr (PDict [(''input'', PStr input_text),
                            (''target_language'', PStr target_language),
                            (''stages'', PDict [(''openai_summary'', summary_result)]),
                            (''success'', PBool False),
                            (''error'', PStr (''OpenAI stage failed: '' @ py_format w err))])))
   \<and> (\<forall>r1 evs1.
         summarize input_text summary_style = (r1, evs1) \<longrightarrow>
         snd (process_and_translate_with w summarize (recording translate) input_text
                target_language summary_style) = evs1
         \<or> (\<exists>summary_result summary.
               r1 = Inr summary_result
               \<and> py_getitem summary_result (KStr ''response'') = Inr summary
               \<and> snd (process_and_translate_with w summarize (recording translate) input_text
                         target_language summary_style) =
                   evs1 @ Translate_called summary ''en'' target_language
                            # snd (translate summary ''en'' target_language)))
   \<and> (\<forall>d evs.
         summarize_text w input_text summary_style [] = (Inr d, evs)
         \<and> map_of d ''success'' = Some (PBool False) \<longrightarrow>
         (\<exists>msg. map_of d ''error'' = Some (PStr msg)
            \<and> process_and_translate w input_text target_language summary_style =
                (Inr (PDict [(''input'', PStr input_text),
                             (''target_language'', PStr target_language),
                             (''stages'', PDict [(''openai_summary'', PDict d)]),
                             (''success'', PBool False),
                             (''error'', PStr (''OpenAI stage failed: '' @ msg))]), evs))
         \<and> (\<forall>req. Http_post req \<notin> set evs))"
proof -
  let ?double = "process_and_translate_with w summarize (recording translate) input_text
                   target_language summary_style"
  have failing: "snd ?double = evs1
       \<and> (\<forall>err. py_getitem summary_result (KStr ''error'') = Inr err \<longrightarrow>
              fst ?double =
                Inr (PDict [(''input'', PStr input_text),
                            (''target_language'', PStr target_language),
                            (''stages'', PDict [(''openai_summary'', summary_result)]),
                            (''success'', PBool False),
                            (''error'', PStr (''OpenAI stage failed: '' @ py_format w err))]))"
    if "summarize input_text summary_style = (Inr summary_result, evs1)
          \<and> py_getitem summary_result (KStr ''success'') = Inr ok \<and> \<not> py_truthy ok"
    for summary_result evs1 ok
  proof -
    from that have run: "summarize input_text summary_style = (Inr summary_result, evs1)"
      and ok: "py_getitem summary_result (KStr ''success'') = Inr ok"
      and failed: "\<not> py_truthy ok"
      by simp_all
    from pipeline_after_summary(1) [where summarize = summarize and input_text = input_text and summary_style = summary_style, OF run ok failed]
      pipeline_after_summary(2) [where summarize = summarize and input_text = input_text and summary_style = summary_style, OF run ok failed]
    show ?thesis by simp
  qed
  have calls: "snd ?double = evs1
         \<or> (\<exists>summary_result summary.
               r1 = Inr summary_result
               \<and> py_getitem summary_result (KStr ''response'') = Inr summary
               \<and> snd ?double = evs1 @ Translate_called summary ''en'' target_language
                                        # snd (translate summary ''en'' target_language))"
    if run: "summarize input_text summary_style = (r1, evs1)" for r1 evs1
  proof (cases r1)
    case (Inl e)
    with run pipeline_summarize_raised [where summarize = summarize and input_text = input_text
          and summary_style = summary_style and e = e and ?evs1.0 = evs1]
    show ?thesis by simp
  next
    case (Inr summary_result)
    show ?thesis
    proof (cases "py_getitem summary_result (KStr ''success'')")
      case (Inl e)
      with run Inr
        pipeline_no_success_key [where summarize = summarize and input_text = input_text
          and summary_style = summary_style and summary_result = summary_result
          and ?evs1.0 = evs1 and e = e]
      show ?thesis by simp
    next
      case ok: (Inr ok)
      from run Inr have run': "summarize input_text summary_style = (Inr summary_result, evs1)"
        by simp
      show ?thesis
      proof (cases "py_truthy ok")
        case False
        from pipeline_after_summary(2) [where summarize = summarize and input_text = input_text and summary_style = summary_style, OF run' ok False]
        show ?thesis by simp
      next
        case True
        from pipeline_after_summary(3) [where summarize = summarize and input_text = input_text and summary_style = summary_style, OF run' ok True,
            of w "recording translate" target_language]
          Inr
        show ?thesis by (auto simp: snd_recording)
      qed
    qed
  qed
  have real: "(\<exists>msg. map_of d ''error'' = Some (PStr msg)
            \<and> process_and_translate w input_text target_language summary_style =
                (Inr (PDict [(''input'', PStr input_text),
                             (''target_language'', PStr target_language),
                             (''stages'', PDict [(''openai_summary'', PDict d)]),
                             (''success'', PBool False),
                             (''error'', PStr (''OpenAI stage failed: '' @ msg))]), evs))
         \<and> (\<forall>req. Http_post req \<notin> set evs)"
    if "summarize_text w input_text summary_style [] = (Inr d, evs)
          \<and> map_of d ''success'' = Some (PBool False)" for d evs
  proof -
    from that summarize_text_failed [of w input_text summary_style d evs]
    obtain msg where d: "d = ai_failure msg (summarize_prompt input_text summary_style)"
      and quiet: "\<forall>req. Http_post req \<notin> set evs"
      by blast
    have stage: "summarize_stage w input_text summary_style = (Inr (PDict d), evs)"
      using that by (simp add: summarize_stage_def as_value_def)
    have "process_and_translate w input_text target_language summary_style =
                (Inr (PDict [(''input'', PStr input_text),
                             (''target_language'', PStr target_language),
                             (''stages'', PDict [(''openai_summary'', PDict d)]),
                             (''success'', PBool False),
                             (''error'', PStr (''OpenAI stage failed: '' @ msg))]), evs)"
      unfolding process_and_translate_def
      using pipeline_after_summary(1)
          [where summarize = "summarize_stage w"
             and input_text = input_text and summary_style = summary_style,
           OF stage, of "PBool False" "PStr msg"]
      by (simp add: d ai_failure_def)
    moreover have "map_of d ''error'' = Some (PStr msg)"
      by (simp add: d ai_failure_def)
    ultimately show ?thesis using quiet by blast
  qed
  from failing calls real show ?thesis by blast
qed

text \<open>
  On the machine with nothing configured the summarize stage fails for want of a key.
\<close>

theorem pipeline_short_circuit_witness:
  "process_and_translate_with offline_world (summarize_stage offline_world)
       (recording (translate_stage offline_world)) ''Some text.'' ''hi'' ''concise'' =
     (Inr (PDict
        [(''input'', PStr ''Some text.''),
         (''target_language'', PStr ''hi''),
         (''stages'',
          PDict [(''openai_summary'',
                  PDict (ai_failure ''Missing AZURE_OPENAI_API_KEY. Please set it in .env file.''
                           (summarize_prompt ''Some text.'' ''concise'')))]),
         (''success'', PBool False),
         (''error'',
          PStr ''OpenAI stage failed: Missing AZURE_OPENAI_API_KEY. Please set it in .env file.'')]),
      [])
   \<and> process_and_translate offline_world ''Some text.'' ''hi'' ''concise'' =
     (Inr (PDict
        [(''input'', PStr ''Some text.''),
         (''target_language'', PStr ''hi''),
         (''stages'',
          PDict [(''openai_summary'',
                  PDict (ai_failure ''Missing AZURE_OPENAI_API_KEY. Please set it in .env file.''
                           (summarize_prompt ''Some text.'' ''concise'')))]),
         (''success'', PBool False),
         (''error'',
          PStr ''OpenAI stage failed: Missing AZURE_OPENAI_API_KEY. Please set it in .env file.'')]),
      [])"
proof -
  let ?d = "ai_failure ''Missing AZURE_OPENAI_API_KEY. Please set it in .env file.''
              (summarize_prompt ''Some text.'' ''concise'')"
  let ?double = "process_and_translate_with offline_world (summarize_stage offline_world)
                   (recording (translate_stage offline_world)) ''Some text.'' ''hi'' ''concise''"
  have run: "summarize_text offline_world ''Some text.'' ''concise'' [] = (Inr ?d, [])"
    by code_simp
  then have stage: "summarize_stage offline_world ''Some text.'' ''concise'' = (Inr (PDict ?d), [])"
    by (simp add: summarize_stage_def as_value_def)
  have failed: "map_of ?d ''success'' = Some (PBool False)"
    "map_of ?d ''error'' =
       Some (PStr ''Missing AZURE_OPENAI_API_KEY. Please set it in .env file.'')"
    "py_getitem (PDict ?d) (KStr ''success'') = Inr (PBool False)"
    "py_getitem (PDict ?d) (KStr ''error'') =
       Inr (PStr ''Missing AZURE_OPENAI_API_KEY. Please set it in .env file.'')"
    "\<not> py_truthy (PBool False)"
    by (simp_all add: ai_failure_def)
  note short = pipeline_short_circuit [of "summarize_stage offline_world" "''Some text.''"
      "''concise''" offline_world "translate_stage offline_world" "''hi''"]
  from short stage failed(3-5) have "snd ?double = []"
    by blast
  moreover from short stage failed(3-5)
  have "fst ?double =
     Inr (PDict
        [(''input'', PStr ''Some text.''),
         (''target_language'', PStr ''hi''),
         (''stages'', PDict [(''openai_summary'', PDict ?d)]),
         (''success'', PBool False),
         (''error'',
          PStr (''OpenAI stage failed: ''
                  @ py_format offline_world
                      (PStr ''Missing AZURE_OPENAI_API_KEY. Please set it in .env file.'')))])"
    by blast
  ultimately have one: "?double =
     (Inr (PDict
        [(''input'', PStr ''Some text.''),
         (''target_language'', PStr ''hi''),
         (''stages'', PDict [(''openai_summary'', PDict ?d)]),
         (''success'', PBool False),
         (''error'',
          PStr ''OpenAI stage failed: Missing AZURE_OPENAI_API_KEY. Please set it in .env file.'')]),
      [])"
    by (simp add: prod_eq_iff)
  from short run failed(1,2)
  have two: "process_and_translate offline_world ''Some text.'' ''hi'' ''concise'' =
     (Inr (PDict
        [(''input'', PStr ''Some text.''),
         (''target_language'', PStr ''hi''),
         (''stages'', PDict [(''openai_summary'', PDict ?d)]),
         (''success'', PBool False),
         (''error'',
          PStr ''OpenAI stage failed: Missing AZURE_OPENAI_API_KEY. Please set it in .env file.'')]),
      [])"
    by fastforce
  from one two show ?thesis by simp
qed

end
